theory Spec2Isabelle
  imports Complex_Main "HOL-Library.Char_ord" "HOL-Library.List_Lexorder"
begin

section \<open>Data model\<close>

text \<open>
  The planning board exists in two versions in the repository: \<^verbatim>\<open>src/App.tsx\<close> (a single
  board whose node and link arrays are React state of \<^verbatim>\<open>App\<close>) and
  \<^verbatim>\<open>src/unnamed/part_000\<close> (a board per planning room, the arrays being fields of the
  active room). Functions that are literally the same in both files are embedded once;
  functions that differ are embedded twice, the second one with the suffix
  \<open>_part000\<close>.

  JavaScript numbers are modelled as real numbers: rounding, infinities and NaN are outside
  the model. Record fields carry a prefix (\<open>item_\<close>, \<open>link_\<close>, \<open>t_\<close>, \<open>room_\<close>) since
  \<open>id\<close>, \<open>x\<close> and \<open>y\<close> are taken in HOL.
\<close>

text \<open>
  Modelled from the spec: \<^verbatim>\<open>types.ts\<close> (the declarations of \<^verbatim>\<open>BoardItem\<close>,
  \<^verbatim>\<open>BoardLink\<close> and \<^verbatim>\<open>PlanningRoom\<close>) is not part of the sources. The node types are
  the five of the spec together with \<^verbatim>\<open>'text'\<close>, which \<^verbatim>\<open>getItemCenter\<close> of
  \<^verbatim>\<open>App.tsx\<close> compares against; the fields are those the object literals of the sources
  write.
\<close>

datatype item_type = Objective | Sticky | IdeaStrip | Image | Goal | Text

datatype variant = Critical | Positive | Alternative | Neutral

record BoardItem =
  item_id :: string
  item_type :: item_type
  item_content :: string
  item_x :: real
  item_y :: real
  item_color :: "string option"
  item_isCompleted :: "bool option"
  item_isLocked :: "bool option"

record BoardLink =
  link_id :: string
  link_fromId :: string
  link_toId :: string
  link_variant :: variant

record PlanningRoom =
  room_id :: string
  room_name :: string
  room_description :: string
  room_createdAt :: nat
  room_updatedAt :: nat
  room_items :: "BoardItem list"
  room_links :: "BoardLink list"
  room_themeColor :: string
  room_boardStyle :: string

text \<open>The viewport transform \<^verbatim>\<open>{ x, y, s }\<close>.\<close>

record transform =
  t_x :: real
  t_y :: real
  t_s :: real

text \<open>What \<^verbatim>\<open>containerRef.current.getBoundingClientRect()\<close> returns.\<close>

record rect =
  rect_left :: real
  rect_top :: real
  rect_width :: real
  rect_height :: real

text \<open>
  JavaScript truthiness of a \<^verbatim>\<open>string | null\<close> value: \<^verbatim>\<open>null\<close>, \<^verbatim>\<open>undefined\<close> and the
  empty string are falsy.
\<close>

definition truthy :: "string option \<Rightarrow> bool" where
  "truthy v = (case v of None \<Rightarrow> False | Some s \<Rightarrow> s \<noteq> [])"

section \<open>Geometry engine\<close>

text \<open>\<^verbatim>\<open>getItemDimensions\<close>, the same in both files; the result is \<open>(w, h)\<close>.\<close>

fun getItemDimensions :: "item_type \<Rightarrow> real \<times> real" where
  "getItemDimensions Objective = (300, 200)"
| "getItemDimensions IdeaStrip = (280, 60)"
| "getItemDimensions Image = (280, 220)"
| "getItemDimensions Goal = (180, 180)"
| "getItemDimensions Sticky = (180, 180)"
| "getItemDimensions Text = (180, 180)"

definition buffer :: real where
  "buffer = 40"

text \<open>
  \<^verbatim>\<open>checkOverlap\<close>, the same in both files. \<^verbatim>\<open>boardItems\<close> is the prop the closure reads;
  \<^verbatim>\<open>Array.some\<close> is \<^const>\<open>list_ex\<close>; an omitted \<^verbatim>\<open>excludeId\<close> is \<open>None\<close>.
\<close>

definition checkOverlap ::
  "BoardItem list \<Rightarrow> real \<Rightarrow> real \<Rightarrow> real \<Rightarrow> real \<Rightarrow> string option \<Rightarrow> bool" where
  "checkOverlap boardItems x y width height excludeId =
     list_ex (\<lambda>item.
       if Some (item_id item) = excludeId then False
       else (let d = getItemDimensions (item_type item) in
             x < item_x item + fst d + buffer \<and>
             x + width + buffer > item_x item \<and>
             y < item_y item + snd d + buffer \<and>
             y + height + buffer > item_y item)) boardItems"

datatype placement_mode = Spiral | GridBelow

text \<open>
  The \<^verbatim>\<open>while\<close> loop of \<^verbatim>\<open>findBestPosition\<close>, with its five loop variables as
  arguments.
\<close>

function spiral_loop ::
  "BoardItem list \<Rightarrow> real \<Rightarrow> real \<Rightarrow> real \<Rightarrow> real \<Rightarrow> real \<Rightarrow> real \<Rightarrow> real \<Rightarrow> real \<Rightarrow> nat
   \<Rightarrow> real \<times> real" where
  "spiral_loop boardItems refX refY width height angle radius x y attempts =
     (if checkOverlap boardItems x y width height None \<and> attempts < 200 then
        spiral_loop boardItems refX refY width height (angle + 0.8) (radius + 15)
          (refX + cos (angle + 0.8) * (radius + 15))
          (refY + sin (angle + 0.8) * (radius + 15))
          (attempts + 1)
      else (x, y))"
  by pat_completeness auto
termination
  by (relation "measure (\<lambda>(_, _, _, _, _, _, _, _, _, attempts). 200 - attempts)") auto

declare spiral_loop.simps [simp del]

text \<open>
  The cells of the \<^verbatim>\<open>grid-below\<close> search in the order the two nested \<^verbatim>\<open>for\<close> loops visit
  them: rows 1 to 5, and in each row the nine horizontal offsets.
\<close>

definition grid_offsets :: "real list" where
  "grid_offsets = [0, 220, -220, 440, -440, 660, -660, 880, -880]"

definition grid_cells :: "real \<Rightarrow> real \<Rightarrow> (real \<times> real) list" where
  "grid_cells refX refY =
     concat (map (\<lambda>row. map (\<lambda>ox. (refX + ox, refY + real row * 250)) grid_offsets)
       [1, 2, 3, 4, 5 :: nat])"

text \<open>
  \<^verbatim>\<open>findBestPosition\<close>: in \<^verbatim>\<open>grid-below\<close> mode the first free cell is returned, and when
  no cell is free the function falls through to the spiral.
\<close>

definition findBestPosition ::
  "BoardItem list \<Rightarrow> real \<Rightarrow> real \<Rightarrow> real \<Rightarrow> real \<Rightarrow> placement_mode \<Rightarrow> real \<times> real" where
  "findBestPosition boardItems refX refY width height mode =
     (case (if mode = GridBelow
            then find (\<lambda>(targetX, targetY).
                   \<not> checkOverlap boardItems targetX targetY width height None)
                   (grid_cells refX refY)
            else None) of
        Some p \<Rightarrow> p
      | None \<Rightarrow> spiral_loop boardItems refX refY width height 0 0 refX refY 0)"

section \<open>Interaction state and events\<close>

text \<open>
  The \<^verbatim>\<open>useState\<close> and \<^verbatim>\<open>useRef\<close> cells of \<^verbatim>\<open>PlanningBoard\<close>, the same in both
  files. \<^verbatim>\<open>containerRef.current\<close> belongs to the DOM and is passed to the handlers that
  read it: \<open>None\<close> is an unmounted container.
\<close>

record board_ui =
  selectedId :: "string option"
  draggingId :: "string option"
  pendingLinkStart :: "string option"
  activeLinkVariant :: variant
  activeLinkMenuId :: "string option"
  deletingIds :: "string set"
  transform :: transform
  isPanning :: bool
  lastMousePos :: "real \<times> real"
  cursorPos :: "real \<times> real"
  focusModeId :: "string option"
  isTaskWizardOpen :: bool
  wizardTaskName :: string
  wizardGoalId :: string
  wizardNewGoalName :: string
  wizardSourceId :: "string option"

text \<open>
  \<^verbatim>\<open>App.tsx\<close>: the arrays are state of \<^verbatim>\<open>App\<close> and every setter call of the board passes
  an updater function (\<^verbatim>\<open>prev => ...\<close>), so a handler acts on the current arrays.
\<close>

record board_state = board_ui +
  boardItems :: "BoardItem list"
  boardLinks :: "BoardLink list"

text \<open>
  \<^verbatim>\<open>part_000\<close>: \<^verbatim>\<open>App\<close> holds the rooms and the id of the active one; the board receives
  the arrays of the active room as props.
\<close>

record app_state_part000 = board_ui +
  rooms :: "PlanningRoom list"
  activeRoomId :: "string option"

record mouse_event =
  clientX :: real
  clientY :: real
  button :: nat

record wheel_event = mouse_event +
  deltaY :: real

datatype focus_kind = FocusNode | FocusLink

section \<open>Viewport transform controller\<close>


definition getBoardCoordinates ::
  "rect option \<Rightarrow> 'a board_ui_scheme \<Rightarrow> real \<Rightarrow> real \<Rightarrow> real \<times> real" where
  "getBoardCoordinates container st cx cy =
     (case container of
        None \<Rightarrow> (0, 0)
      | Some r \<Rightarrow>
          ((cx - rect_left r - t_x (transform st)) / t_s (transform st),
           (cy - rect_top r - t_y (transform st)) / t_s (transform st)))"

text \<open>\<^verbatim>\<open>handleWheel\<close> of \<^verbatim>\<open>App.tsx\<close>: nothing in focus mode, otherwise only the scale.\<close>

definition handleWheel :: "wheel_event \<Rightarrow> 'a board_ui_scheme \<Rightarrow> 'a board_ui_scheme" where
  "handleWheel e st =
     (if truthy (focusModeId st) then st
      else (let zoomSensitivity = 0.001;
                newScale = min (max 0.1 (t_s (transform st) - deltaY e * zoomSensitivity)) 5
            in st\<lparr>transform := (transform st)\<lparr>t_s := newScale\<rparr>\<rparr>))"

text \<open>
  \<^verbatim>\<open>handleWheel\<close> of \<^verbatim>\<open>part_000\<close>: no focus-mode test; the offsets are recomputed from
  the cursor position relative to the container.
\<close>

definition handleWheel_part000 ::
  "rect option \<Rightarrow> wheel_event \<Rightarrow> 'a board_ui_scheme \<Rightarrow> 'a board_ui_scheme" where
  "handleWheel_part000 container e st =
     (let zoomSpeed = 0.001;
          newScale = min (max (t_s (transform st) - deltaY e * zoomSpeed) 0.1) 5
      in case container of
           None \<Rightarrow> st
         | Some r \<Rightarrow>
             (let mouseX = clientX e - rect_left r;
                  mouseY = clientY e - rect_top r;
                  boardX = (mouseX - t_x (transform st)) / t_s (transform st);
                  boardY = (mouseY - t_y (transform st)) / t_s (transform st)
              in st\<lparr>transform :=
                      \<lparr>t_x = mouseX - boardX * newScale,
                       t_y = mouseY - boardY * newScale,
                       t_s = newScale\<rparr>\<rparr>))"

text \<open>The \<^verbatim>\<open>onClick\<close> handlers of the three toolbar buttons, the same in both files.\<close>

definition zoomIn :: "'a board_ui_scheme \<Rightarrow> 'a board_ui_scheme" where
  "zoomIn st = st\<lparr>transform := (transform st)\<lparr>t_s := min (t_s (transform st) + 0.2) 5\<rparr>\<rparr>"

definition zoomOut :: "'a board_ui_scheme \<Rightarrow> 'a board_ui_scheme" where
  "zoomOut st = st\<lparr>transform := (transform st)\<lparr>t_s := max (t_s (transform st) - 0.2) 0.1\<rparr>\<rparr>"

definition resetView :: "'a board_ui_scheme \<Rightarrow> 'a board_ui_scheme" where
  "resetView st = st\<lparr>transform := \<lparr>t_x = 0, t_y = 0, t_s = 1\<rparr>\<rparr>"

text \<open>\<^verbatim>\<open>enterFocusMode\<close> and \<^verbatim>\<open>exitFocusMode\<close>, the same in both files.\<close>

definition enterFocusMode ::
  "rect option \<Rightarrow> string \<Rightarrow> focus_kind \<Rightarrow> real \<Rightarrow> real \<Rightarrow> 'a board_ui_scheme
   \<Rightarrow> 'a board_ui_scheme" where
  "enterFocusMode container ident kind targetX targetY st =
     (case container of
        None \<Rightarrow> st
      | Some r \<Rightarrow>
          (let targetScale = 1.5;
               newX = rect_width r / 2 - targetX * targetScale;
               newY = rect_height r / 2 - targetY * targetScale
           in st\<lparr>focusModeId := Some ident, selectedId := Some ident,
                 transform := \<lparr>t_x = newX, t_y = newY, t_s = targetScale\<rparr>\<rparr>))"

definition exitFocusMode :: "'a board_ui_scheme \<Rightarrow> 'a board_ui_scheme" where
  "exitFocusMode st = st\<lparr>focusModeId := None\<rparr>"

text \<open>The screen position of a board point under a transform: \<open>screen = board * s + offset\<close>.\<close>

definition to_screen :: "transform \<Rightarrow> real \<times> real \<Rightarrow> real \<times> real" where
  "to_screen T p = (fst p * t_s T + t_x T, snd p * t_s T + t_y T)"

text \<open>The board point under a pointer position given relative to the container.\<close>

definition to_board :: "transform \<Rightarrow> real \<times> real \<Rightarrow> real \<times> real" where
  "to_board T p = ((fst p - t_x T) / t_s T, (snd p - t_y T) / t_s T)"

section \<open>Board mutation core of \<^verbatim>\<open>App.tsx\<close>\<close>

text \<open>
  The ids that \<^verbatim>\<open>Math.random().toString(36).substr(2, 9)\<close> produces are arguments of the
  handlers, in the order the source draws them.
\<close>

text \<open>
  \<^verbatim>\<open>handleDeleteItem\<close>: the state right after the call, the delay given to
  \<^verbatim>\<open>setTimeout\<close>, and the callback it schedules. The callback only calls setters with
  updater functions, so it acts on the state at the time it runs.
\<close>

definition handleDeleteItem_timeout :: "string \<Rightarrow> board_state \<Rightarrow> board_state" where
  "handleDeleteItem_timeout ident st =
     st\<lparr>boardItems := filter (\<lambda>item. item_id item \<noteq> ident) (boardItems st),
        boardLinks :=
          filter (\<lambda>l. link_fromId l \<noteq> ident \<and> link_toId l \<noteq> ident) (boardLinks st),
        deletingIds := deletingIds st - {ident}\<rparr>"

definition handleDeleteItem ::
  "string \<Rightarrow> board_state \<Rightarrow> board_state \<times> nat \<times> (board_state \<Rightarrow> board_state)" where
  "handleDeleteItem ident st =
     (let st1 = st\<lparr>deletingIds := insert ident (deletingIds st)\<rparr>;
          st2 = (if selectedId st = Some ident then st1\<lparr>selectedId := None\<rparr> else st1);
          st3 = (if focusModeId st = Some ident then st2\<lparr>focusModeId := None\<rparr> else st2)
      in (st3, 300, handleDeleteItem_timeout ident))"

text \<open>
  \<^verbatim>\<open>handleMouseDown(e, id?)\<close>: \<open>ident\<close> is \<open>None\<close> for the press on the canvas itself.
\<close>

definition handleMouseDown ::
  "string \<Rightarrow> mouse_event \<Rightarrow> string option \<Rightarrow> board_state \<Rightarrow> board_state" where
  "handleMouseDown newLinkId e ident st =
     (let st0 = st\<lparr>lastMousePos := (clientX e, clientY e)\<rparr> in
      if \<not> truthy ident then
        (if button e = 0 then
           (if truthy (pendingLinkStart st) then st0\<lparr>pendingLinkStart := None\<rparr>
            else (let st1 = st0\<lparr>isPanning := True, selectedId := None,
                                 activeLinkMenuId := None\<rparr>
                  in if truthy (focusModeId st) then exitFocusMode st1 else st1))
         else st0)
      else if truthy (pendingLinkStart st) then
        (let st1 =
           (case (pendingLinkStart st, ident) of
              (Some source, Some target) \<Rightarrow>
                if source \<noteq> target then
                  st0\<lparr>boardLinks := boardLinks st0 @
                        [\<lparr>link_id = newLinkId, link_fromId = source, link_toId = target,
                          link_variant = activeLinkVariant st\<rparr>]\<rparr>
                else st0
            | _ \<Rightarrow> st0)
         in st1\<lparr>pendingLinkStart := None\<rparr>)
      else
        (case find (\<lambda>i. Some (item_id i) = ident) (boardItems st) of
           None \<Rightarrow> st0
         | Some item \<Rightarrow>
             (let st1 = st0\<lparr>selectedId := ident, activeLinkMenuId := None\<rparr>
              in if item_isLocked item \<noteq> Some True then st1\<lparr>draggingId := ident\<rparr>
                 else st1)))"

definition handleContainerMouseMove ::
  "rect option \<Rightarrow> mouse_event \<Rightarrow> board_state \<Rightarrow> board_state" where
  "handleContainerMouseMove container e st =
     (let st0 = (if truthy (pendingLinkStart st)
                 then st\<lparr>cursorPos := getBoardCoordinates container st (clientX e) (clientY e)\<rparr>
                 else st) in
      if isPanning st \<and> \<not> truthy (focusModeId st) then
        (let dx = clientX e - fst (lastMousePos st);
             dy = clientY e - snd (lastMousePos st)
         in st0\<lparr>transform := (transform st0)\<lparr>t_x := t_x (transform st0) + dx,
                                               t_y := t_y (transform st0) + dy\<rparr>,
                lastMousePos := (clientX e, clientY e)\<rparr>)
      else if truthy (draggingId st) then
        (let dx = clientX e - fst (lastMousePos st);
             dy = clientY e - snd (lastMousePos st);
             scale = t_s (transform st)
         in st0\<lparr>boardItems :=
                  map (\<lambda>item. if Some (item_id item) = draggingId st
                               then item\<lparr>item_x := item_x item + dx / scale,
                                         item_y := item_y item + dy / scale\<rparr>
                               else item) (boardItems st0),
                lastMousePos := (clientX e, clientY e)\<rparr>)
      else st0)"


section \<open>Board mutation core of \<^verbatim>\<open>part_000\<close>\<close>

text \<open>
  In \<^verbatim>\<open>part_000\<close> the setters of the board are not React setters: \<^verbatim>\<open>App\<close> passes
  \<^verbatim>\<open>(i) => updateActiveRoom(i, activeRoom.links)\<close> and
  \<^verbatim>\<open>(l) => updateActiveRoom(activeRoom.items, l)\<close>, and the handlers pass arrays built
  from the props \<^verbatim>\<open>boardItems\<close> and \<^verbatim>\<open>boardLinks\<close>. What a handler reads from its
  closure is the state of the render that created it; the argument \<open>c\<close> of the handlers
  below is that state. For the handler of an event, \<open>c\<close> is the current state; for the
  callback of a timer, \<open>c\<close> is the state at the time the timer was set.
  \<open>now\<close> is the value of \<^verbatim>\<open>Date.now()\<close>.
\<close>

definition activeRoom :: "app_state_part000 \<Rightarrow> PlanningRoom option" where
  "activeRoom c =
     (case find (\<lambda>r. Some (room_id r) = activeRoomId c) (rooms c) of
        Some r \<Rightarrow> Some r
      | None \<Rightarrow> (case rooms c of [] \<Rightarrow> None | r # _ \<Rightarrow> Some r))"

definition updateActiveRoom ::
  "app_state_part000 \<Rightarrow> nat \<Rightarrow> BoardItem list \<Rightarrow> BoardLink list \<Rightarrow> app_state_part000
   \<Rightarrow> app_state_part000" where
  "updateActiveRoom c now its lks st =
     st\<lparr>rooms := map (\<lambda>r. if Some (room_id r) = activeRoomId c
                           then r\<lparr>room_items := its, room_links := lks,
                                 room_updatedAt := now\<rparr>
                           else r) (rooms st)\<rparr>"

text \<open>
  The props \<^verbatim>\<open>boardItems\<close> and \<^verbatim>\<open>boardLinks\<close>. The board is mounted only when
  \<^verbatim>\<open>activeRoom\<close> is defined.
\<close>

definition boardItems_part000 :: "app_state_part000 \<Rightarrow> BoardItem list" where
  "boardItems_part000 c = (case activeRoom c of Some r \<Rightarrow> room_items r | None \<Rightarrow> [])"

definition boardLinks_part000 :: "app_state_part000 \<Rightarrow> BoardLink list" where
  "boardLinks_part000 c = (case activeRoom c of Some r \<Rightarrow> room_links r | None \<Rightarrow> [])"

definition setBoardItems_part000 ::
  "app_state_part000 \<Rightarrow> nat \<Rightarrow> BoardItem list \<Rightarrow> app_state_part000 \<Rightarrow> app_state_part000" where
  "setBoardItems_part000 c now i st = updateActiveRoom c now i (boardLinks_part000 c) st"

definition setBoardLinks_part000 ::
  "app_state_part000 \<Rightarrow> nat \<Rightarrow> BoardLink list \<Rightarrow> app_state_part000 \<Rightarrow> app_state_part000" where
  "setBoardLinks_part000 c now l st = updateActiveRoom c now (boardItems_part000 c) l st"

definition handleDeleteItem_timeout_part000 ::
  "app_state_part000 \<Rightarrow> string \<Rightarrow> nat \<Rightarrow> app_state_part000 \<Rightarrow> app_state_part000" where
  "handleDeleteItem_timeout_part000 c ident now st =
     (let st1 = setBoardItems_part000 c now
                  (filter (\<lambda>item. item_id item \<noteq> ident) (boardItems_part000 c)) st;
          st2 = setBoardLinks_part000 c now
                  (filter (\<lambda>link. link_fromId link \<noteq> ident \<and> link_toId link \<noteq> ident)
                     (boardLinks_part000 c)) st1;
          st3 = st2\<lparr>deletingIds := deletingIds st2 - {ident}\<rparr>;
          st4 = (if selectedId c = Some ident then st3\<lparr>selectedId := None\<rparr> else st3)
      in if focusModeId c = Some ident then exitFocusMode st4 else st4)"

definition handleDeleteItem_part000 ::
  "app_state_part000 \<Rightarrow> string \<Rightarrow> app_state_part000
   \<Rightarrow> app_state_part000 \<times> nat \<times> (nat \<Rightarrow> app_state_part000 \<Rightarrow> app_state_part000)" where
  "handleDeleteItem_part000 c ident st =
     (st\<lparr>deletingIds := insert ident (deletingIds st)\<rparr>, 300,
      handleDeleteItem_timeout_part000 c ident)"

definition handleMouseDown_part000 ::
  "app_state_part000 \<Rightarrow> nat \<Rightarrow> string \<Rightarrow> mouse_event \<Rightarrow> string option \<Rightarrow> app_state_part000
   \<Rightarrow> app_state_part000" where
  "handleMouseDown_part000 c now newLinkId e ident st =
     (let st0 = st\<lparr>lastMousePos := (clientX e, clientY e)\<rparr> in
      if \<not> truthy ident then
        (if button e = 0 then
           (if truthy (pendingLinkStart c) then st0\<lparr>pendingLinkStart := None\<rparr>
            else (let st1 = st0\<lparr>isPanning := True, selectedId := None,
                                 activeLinkMenuId := None\<rparr>
                  in if truthy (focusModeId c) then exitFocusMode st1 else st1))
         else st0)
      else if truthy (pendingLinkStart c) then
        (let st1 =
           (case (pendingLinkStart c, ident) of
              (Some source, Some target) \<Rightarrow>
                if source \<noteq> target then
                  setBoardLinks_part000 c now
                    (boardLinks_part000 c @
                       [\<lparr>link_id = newLinkId, link_fromId = source, link_toId = target,
                         link_variant = activeLinkVariant c\<rparr>]) st0
                else st0
            | _ \<Rightarrow> st0)
         in st1\<lparr>pendingLinkStart := None\<rparr>)
      else
        (case find (\<lambda>i. Some (item_id i) = ident) (boardItems_part000 c) of
           None \<Rightarrow> st0
         | Some item \<Rightarrow>
             (let st1 = st0\<lparr>selectedId := ident, activeLinkMenuId := None\<rparr>
              in if item_isLocked item \<noteq> Some True then st1\<lparr>draggingId := ident\<rparr>
                 else st1)))"

definition handleContainerMouseMove_part000 ::
  "app_state_part000 \<Rightarrow> nat \<Rightarrow> rect option \<Rightarrow> mouse_event \<Rightarrow> app_state_part000
   \<Rightarrow> app_state_part000" where
  "handleContainerMouseMove_part000 c now container e st =
     (let st0 = (if truthy (pendingLinkStart c)
                 then st\<lparr>cursorPos := getBoardCoordinates container c (clientX e) (clientY e)\<rparr>
                 else st) in
      if isPanning c \<and> \<not> truthy (focusModeId c) then
        (let dx = clientX e - fst (lastMousePos st);
             dy = clientY e - snd (lastMousePos st)
         in st0\<lparr>transform := (transform st0)\<lparr>t_x := t_x (transform st0) + dx,
                                               t_y := t_y (transform st0) + dy\<rparr>,
                lastMousePos := (clientX e, clientY e)\<rparr>)
      else if truthy (draggingId c) then
        (let dx = clientX e - fst (lastMousePos st);
             dy = clientY e - snd (lastMousePos st)
         in (setBoardItems_part000 c now
               (map (\<lambda>item. if Some (item_id item) = draggingId c
                             then item\<lparr>item_x := item_x item + dx / t_s (transform c),
                                       item_y := item_y item + dy / t_s (transform c)\<rparr>
                             else item) (boardItems_part000 c)) st0)
            \<lparr>lastMousePos := (clientX e, clientY e)\<rparr>)
      else st0)"

section \<open>Link renderer\<close>

text \<open>
  \<^verbatim>\<open>getItemCenter\<close>: the two files differ in the \<^verbatim>\<open>'text'\<close> case, which only
  \<^verbatim>\<open>App.tsx\<close> has.
\<close>

fun center_size :: "item_type \<Rightarrow> real \<times> real" where
  "center_size Image = (256, 200)"
| "center_size Text = (180, 60)"
| "center_size Objective = (256, 140)"
| "center_size IdeaStrip = (280, 60)"
| "center_size Goal = (180, 180)"
| "center_size Sticky = (160, 160)"

definition getItemCenter :: "BoardItem \<Rightarrow> real \<times> real" where
  "getItemCenter item =
     (item_x item + fst (center_size (item_type item)) / 2,
      item_y item + snd (center_size (item_type item)) / 2)"

fun center_size_part000 :: "item_type \<Rightarrow> real \<times> real" where
  "center_size_part000 Image = (256, 200)"
| "center_size_part000 Objective = (256, 140)"
| "center_size_part000 IdeaStrip = (280, 60)"
| "center_size_part000 Goal = (180, 180)"
| "center_size_part000 Sticky = (160, 160)"
| "center_size_part000 Text = (160, 160)"

definition getItemCenter_part000 :: "BoardItem \<Rightarrow> real \<times> real" where
  "getItemCenter_part000 item =
     (item_x item + fst (center_size_part000 (item_type item)) / 2,
      item_y item + snd (center_size_part000 (item_type item)) / 2)"

text \<open>\<^verbatim>\<open>Array.prototype.join\<close> on strings.\<close>

fun join :: "string \<Rightarrow> string list \<Rightarrow> string" where
  "join sep [] = []"
| "join sep [a] = a"
| "join sep (a # b # rest) = a @ sep @ join sep (b # rest)"

text \<open>
  The key \<^verbatim>\<open>[link.fromId, link.toId].sort().join('-')\<close>. The default \<^verbatim>\<open>sort\<close> of
  JavaScript orders strings by their code units, which for ASCII ids is the lexicographic
  order on \<^typ>\<open>string\<close>.
\<close>

definition pairId :: "BoardLink \<Rightarrow> string" where
  "pairId link = join ''-'' (sort [link_fromId link, link_toId link])"

text \<open>The \<^verbatim>\<open>forEach\<close> loop that fills \<^verbatim>\<open>linkGroups\<close>.\<close>

definition linkGroups :: "BoardLink list \<Rightarrow> (string \<rightharpoonup> BoardLink list)" where
  "linkGroups lks =
     foldl (\<lambda>groups link.
              let ids = pairId link
              in groups(ids \<mapsto> (case groups ids of None \<Rightarrow> [] | Some g \<Rightarrow> g) @ [link]))
           Map.empty lks"

text \<open>\<^verbatim>\<open>Array.prototype.findIndex\<close>: the first index that satisfies the test, or \<open>-1\<close>.\<close>

fun findIndex :: "('a \<Rightarrow> bool) \<Rightarrow> 'a list \<Rightarrow> int" where
  "findIndex P [] = -1"
| "findIndex P (a # rest) =
     (if P a then 0 else (let i = findIndex P rest in if i < 0 then -1 else i + 1))"

definition siblings :: "BoardLink list \<Rightarrow> BoardLink \<Rightarrow> BoardLink list" where
  "siblings lks link = (case linkGroups lks (pairId link) of Some g \<Rightarrow> g | None \<Rightarrow> [link])"

text \<open>
  The perpendicular displacement of a link: \<^verbatim>\<open>offset\<close> in \<^verbatim>\<open>App.tsx\<close>, the factor
  \<^verbatim>\<open>(index - (siblings.length - 1) / 2) * 30\<close> in \<^verbatim>\<open>part_000\<close>.
\<close>

definition fan_offset :: "BoardLink list \<Rightarrow> BoardLink \<Rightarrow> real" where
  "fan_offset lks link =
     (let sibs = siblings lks link;
          index = findIndex (\<lambda>l. link_id l = link_id link) sibs;
          count = length sibs;
          spread = 30;
          centeredIndex = real_of_int index - (real count - 1) / 2
      in centeredIndex * spread)"

definition colorMap :: "variant \<Rightarrow> string" where
  "colorMap v = (case v of Critical \<Rightarrow> ''#ef4444'' | Positive \<Rightarrow> ''#22c55e''
                 | Alternative \<Rightarrow> ''#3b82f6'' | Neutral \<Rightarrow> ''#9ca3af'')"

text \<open>What the renderer draws for one link: the quadratic curve and its decoration.\<close>

record connection =
  conn_key :: string
  conn_p1 :: "real \<times> real"
  conn_control :: "real \<times> real"
  conn_p2 :: "real \<times> real"
  conn_stroke :: string
  conn_strokeWidth :: nat
  conn_radius :: nat
  conn_dimmed :: bool

text \<open>
  The body of \<^verbatim>\<open>boardLinks.map(link => ...)\<close> in \<^verbatim>\<open>connections\<close>; \<open>None\<close> is the
  \<^verbatim>\<open>null\<close> of a link with a missing endpoint. The function that gives the centre of a
  node is the only difference between the two files.
\<close>

definition connection_of ::
  "(BoardItem \<Rightarrow> real \<times> real) \<Rightarrow> BoardItem list \<Rightarrow> BoardLink list \<Rightarrow> string option
   \<Rightarrow> BoardLink \<Rightarrow> connection option" where
  "connection_of centre its lks focus link =
     (case (find (\<lambda>i. item_id i = link_fromId link) its,
            find (\<lambda>i. item_id i = link_toId link) its) of
        (Some from, Some to) \<Rightarrow>
          (let p1 = centre from;
               p2 = centre to;
               dx = fst p2 - fst p1;
               dy = snd p2 - snd p1;
               dist = sqrt (dx * dx + dy * dy);
               midX = (fst p1 + fst p2) / 2;
               midY = (snd p1 + snd p2) / 2;
               nx = - dy / (if dist \<noteq> 0 then dist else 1);
               ny = dx / (if dist \<noteq> 0 then dist else 1);
               offset = fan_offset lks link;
               controlX = midX + nx * offset;
               controlY = midY + ny * offset;
               isFocused = (focus = Some (link_id link));
               isDimmed = (truthy focus \<and> focus \<noteq> Some (link_id link))
           in Some \<lparr>conn_key = link_id link, conn_p1 = p1,
                     conn_control = (controlX, controlY), conn_p2 = p2,
                     conn_stroke = colorMap (link_variant link),
                     conn_strokeWidth = (if isFocused then 6 else 2),
                     conn_radius = (if isFocused then 6 else 3),
                     conn_dimmed = isDimmed\<rparr>)
      | _ \<Rightarrow> None)"

definition connections ::
  "BoardItem list \<Rightarrow> BoardLink list \<Rightarrow> string option \<Rightarrow> connection option list" where
  "connections its lks focus = map (connection_of getItemCenter its lks focus) lks"

definition connections_part000 ::
  "BoardItem list \<Rightarrow> BoardLink list \<Rightarrow> string option \<Rightarrow> connection option list" where
  "connections_part000 its lks focus =
     map (connection_of getItemCenter_part000 its lks focus) lks"

section \<open>Notions of the specification\<close>



definition axis_intersect :: "real \<Rightarrow> real \<Rightarrow> real \<Rightarrow> real \<Rightarrow> bool" where
  "axis_intersect a1 a2 b1 b2 = (a1 < b2 \<and> b1 < a2)"



text \<open>
  The \<open>k\<close>-th candidate of the spiral around \<open>(refX, refY)\<close>: radius \<open>15 k\<close> at angle
  \<open>0.8 k\<close>.
\<close>

definition cand :: "real \<Rightarrow> real \<Rightarrow> nat \<Rightarrow> real \<times> real" where
  "cand refX refY k =
     (refX + cos (0.8 * real k) * (15 * real k), refY + sin (0.8 * real k) * (15 * real k))"

text \<open>A position is free when a node of the given size placed there overlaps no node.\<close>

definition free_at :: "BoardItem list \<Rightarrow> real \<Rightarrow> real \<Rightarrow> real \<times> real \<Rightarrow> bool" where
  "free_at its width height p = (\<not> checkOverlap its (fst p) (snd p) width height None)"

text \<open>
  The midpoint of a segment, and the normal of the segment from \<open>p1\<close> to \<open>p2\<close>: the
  direction turned by a quarter turn, of length one unless the two points coincide.
\<close>

definition midpoint_of :: "real \<times> real \<Rightarrow> real \<times> real \<Rightarrow> real \<times> real" where
  "midpoint_of p1 p2 = ((fst p1 + fst p2) / 2, (snd p1 + snd p2) / 2)"

definition seg_length :: "real \<times> real \<Rightarrow> real \<times> real \<Rightarrow> real" where
  "seg_length p1 p2 =
     sqrt ((fst p2 - fst p1) * (fst p2 - fst p1) + (snd p2 - snd p1) * (snd p2 - snd p1))"

definition unit_normal :: "real \<times> real \<Rightarrow> real \<times> real \<Rightarrow> real \<times> real" where
  "unit_normal p1 p2 =
     (if seg_length p1 p2 = 0 then (0, 0)
      else (- (snd p2 - snd p1) / seg_length p1 p2, (fst p2 - fst p1) / seg_length p1 p2))"

text \<open>The two endpoints of a link as an unordered pair.\<close>

definition endpoints :: "BoardLink \<Rightarrow> string set" where
  "endpoints link = {link_fromId link, link_toId link}"

definition dash_free :: "BoardLink \<Rightarrow> bool" where
  "dash_free link =
     (CHR ''-'' \<notin> set (link_fromId link) \<and> CHR ''-'' \<notin> set (link_toId link))"

text \<open>
  A room is selected when \<^verbatim>\<open>activeRoomId\<close> is the id of a room, which is the case whenever
  the board of \<^verbatim>\<open>part_000\<close> is on screen with rooms created by the application.
\<close>

definition room_selected :: "app_state_part000 \<Rightarrow> bool" where
  "room_selected st = list_ex (\<lambda>r. Some (room_id r) = activeRoomId st) (rooms st)"

text \<open>The scale is within the bounds the spec gives for it.\<close>

definition scale_ok :: "'a board_ui_scheme \<Rightarrow> bool" where
  "scale_ok st = (0.1 \<le> t_s (transform st) \<and> t_s (transform st) \<le> 5)"

text \<open>The pointer position of an event relative to the container.\<close>

definition cursor_in :: "rect \<Rightarrow> 'a mouse_event_scheme \<Rightarrow> real \<times> real" where
  "cursor_in r e = (clientX e - rect_left r, clientY e - rect_top r)"




section \<open>Initial state\<close>

text \<open>\<^verbatim>\<open>INITIAL_BOARD_ITEMS\<close> and \<^verbatim>\<open>INITIAL_BOARD_LINKS\<close>, the same in both files.\<close>

definition INITIAL_BOARD_ITEMS :: "BoardItem list" where
  "INITIAL_BOARD_ITEMS =
     [\<lparr>item_id = ''1'', item_type = Objective, item_content = ''Mission: Alpha Launch'',
       item_x = 550, item_y = 50, item_color = None, item_isCompleted = Some False,
       item_isLocked = None\<rparr>,
      \<lparr>item_id = ''2'', item_type = Sticky, item_content = ''Core Task: Develop MVP'',
       item_x = 600, item_y = 300, item_color = Some ''bg-yellow-200'',
       item_isCompleted = None, item_isLocked = None\<rparr>,
      \<lparr>item_id = ''3'', item_type = IdeaStrip, item_content = ''User Auth Flow'',
       item_x = 250, item_y = 300, item_color = None, item_isCompleted = None,
       item_isLocked = None\<rparr>,
      \<lparr>item_id = ''4'', item_type = IdeaStrip, item_content = ''Payment Gateway'',
       item_x = 950, item_y = 300, item_color = None, item_isCompleted = None,
       item_isLocked = None\<rparr>,
      \<lparr>item_id = ''5'', item_type = Goal, item_content = ''Public Release'',
       item_x = 630, item_y = 600, item_color = None, item_isCompleted = Some False,
       item_isLocked = None\<rparr>]"

definition INITIAL_BOARD_LINKS :: "BoardLink list" where
  "INITIAL_BOARD_LINKS =
     [\<lparr>link_id = ''l1'', link_fromId = ''1'', link_toId = ''2'', link_variant = Critical\<rparr>,
      \<lparr>link_id = ''l2'', link_fromId = ''3'', link_toId = ''2'', link_variant = Neutral\<rparr>,
      \<lparr>link_id = ''l3'', link_fromId = ''4'', link_toId = ''2'', link_variant = Neutral\<rparr>,
      \<lparr>link_id = ''l4'', link_fromId = ''2'', link_toId = ''5'', link_variant = Positive\<rparr>]"

text \<open>The initial values of the \<^verbatim>\<open>useState\<close> cells of \<^verbatim>\<open>App.tsx\<close>.\<close>

definition initial_state :: board_state where
  "initial_state =
     \<lparr>selectedId = None, draggingId = None, pendingLinkStart = None,
      activeLinkVariant = Critical, activeLinkMenuId = None, deletingIds = {},
      transform = \<lparr>t_x = 0, t_y = 0, t_s = 1\<rparr>, isPanning = False,
      lastMousePos = (0, 0), cursorPos = (0, 0), focusModeId = None,
      isTaskWizardOpen = False, wizardTaskName = [], wizardGoalId = [],
      wizardNewGoalName = [], wizardSourceId = None,
      boardItems = INITIAL_BOARD_ITEMS, boardLinks = INITIAL_BOARD_LINKS\<rparr>"

text \<open>
  \<^verbatim>\<open>DEFAULT_ROOMS\<close> and the initial state of \<^verbatim>\<open>part_000\<close> when nothing is stored;
  \<open>now\<close> is \<^verbatim>\<open>Date.now()\<close> at load time.
\<close>

definition DEFAULT_ROOMS :: "nat \<Rightarrow> PlanningRoom list" where
  "DEFAULT_ROOMS now =
     [\<lparr>room_id = ''default-room'', room_name = ''Global Strategy'',
       room_description = ''Primary workspace for mission-critical objectives.'',
       room_createdAt = now, room_updatedAt = now,
       room_items = INITIAL_BOARD_ITEMS, room_links = INITIAL_BOARD_LINKS,
       room_themeColor = ''blue'', room_boardStyle = ''noir''\<rparr>]"

definition initial_state_part000 :: "nat \<Rightarrow> app_state_part000" where
  "initial_state_part000 now =
     \<lparr>selectedId = None, draggingId = None, pendingLinkStart = None,
      activeLinkVariant = Critical, activeLinkMenuId = None, deletingIds = {},
      transform = \<lparr>t_x = 0, t_y = 0, t_s = 1\<rparr>, isPanning = False,
      lastMousePos = (0, 0), cursorPos = (0, 0), focusModeId = None,
      isTaskWizardOpen = False, wizardTaskName = [], wizardGoalId = [],
      wizardNewGoalName = [], wizardSourceId = None,
      rooms = DEFAULT_ROOMS now,
      activeRoomId = (case DEFAULT_ROOMS now of [] \<Rightarrow> None | r # _ \<Rightarrow> Some (room_id r))\<rparr>"

text \<open>A container of 800 by 600 pixels at the origin of the page.\<close>

definition sample_rect :: rect where
  "sample_rect = \<lparr>rect_left = 0, rect_top = 0, rect_width = 800, rect_height = 600\<rparr>"

definition wheel_at :: "real \<Rightarrow> real \<Rightarrow> real \<Rightarrow> wheel_event" where
  "wheel_at cx cy dy = \<lparr>clientX = cx, clientY = cy, button = 0, deltaY = dy\<rparr>"

definition mouse_at :: "real \<Rightarrow> real \<Rightarrow> nat \<Rightarrow> mouse_event" where
  "mouse_at cx cy b = \<lparr>clientX = cx, clientY = cy, button = b\<rparr>"

section \<open>Sample data\<close>

definition sticky_at :: "string \<Rightarrow> real \<Rightarrow> real \<Rightarrow> BoardItem" where
  "sticky_at ident px py =
     \<lparr>item_id = ident, item_type = Sticky, item_content = ''Note'', item_x = px, item_y = py,
      item_color = Some ''bg-yellow-200'', item_isCompleted = Some False,
      item_isLocked = Some False\<rparr>"

text \<open>The initial board of \<^verbatim>\<open>part_000\<close> with the node \<open>''2''\<close> selected.\<close>

definition selected_state_part000 :: app_state_part000 where
  "selected_state_part000 = (initial_state_part000 0)\<lparr>selectedId := Some ''2''\<rparr>"

text \<open>The initial board of \<^verbatim>\<open>App.tsx\<close> with the node \<open>''2''\<close> selected and focused.\<close>

definition selected_state :: board_state where
  "selected_state = initial_state\<lparr>selectedId := Some ''2'', focusModeId := Some ''2''\<rparr>"

text \<open>
  The initial boards with a link gesture pending from the node \<open>''1''\<close>, and with the
  node \<open>''2''\<close> being dragged from the pointer position \<open>(10, 10)\<close> at scale 2.
\<close>

definition pending_state :: board_state where
  "pending_state = initial_state\<lparr>pendingLinkStart := Some ''1'', activeLinkVariant := Positive\<rparr>"

definition pending_state_part000 :: app_state_part000 where
  "pending_state_part000 =
     (initial_state_part000 0)\<lparr>pendingLinkStart := Some ''1'', activeLinkVariant := Positive\<rparr>"

definition dragging_state :: board_state where
  "dragging_state =
     initial_state\<lparr>draggingId := Some ''2'', selectedId := Some ''2'',
       lastMousePos := (10, 10), transform := \<lparr>t_x = 0, t_y = 0, t_s = 2\<rparr>\<rparr>"

definition dragging_state_part000 :: app_state_part000 where
  "dragging_state_part000 =
     (initial_state_part000 0)\<lparr>draggingId := Some ''2'', selectedId := Some ''2'',
       lastMousePos := (10, 10), transform := \<lparr>t_x = 0, t_y = 0, t_s = 2\<rparr>\<rparr>"


text \<open>
  Three links between the nodes \<open>''1''\<close> and \<open>''2''\<close> of the initial board, one of them in
  the opposite direction, and a link elsewhere.
\<close>

definition parallel_links :: "BoardLink list" where
  "parallel_links =
     [\<lparr>link_id = ''p1'', link_fromId = ''1'', link_toId = ''2'', link_variant = Critical\<rparr>,
      \<lparr>link_id = ''q'', link_fromId = ''3'', link_toId = ''2'', link_variant = Neutral\<rparr>,
      \<lparr>link_id = ''p2'', link_fromId = ''2'', link_toId = ''1'', link_variant = Positive\<rparr>,
      \<lparr>link_id = ''p3'', link_fromId = ''1'', link_toId = ''2'', link_variant = Neutral\<rparr>]"


section \<open>Properties of the geometry engine\<close>

lemma axis_intersect_common_point:
  "a1 < a2 \<Longrightarrow> b1 < b2 \<Longrightarrow>
   axis_intersect a1 a2 b1 b2 = (\<exists>p. a1 < p \<and> p < a2 \<and> b1 < p \<and> p < b2)"
  unfolding axis_intersect_def
proof
  assume h: "a1 < a2" "b1 < b2" "a1 < b2 \<and> b1 < a2"
  then have "max a1 b1 < min a2 b2" by auto
  then obtain p where "max a1 b1 < p" "p < min a2 b2" using dense by blast
  then show "\<exists>p. a1 < p \<and> p < a2 \<and> b1 < p \<and> p < b2" by auto
next
  assume "\<exists>p. a1 < p \<and> p < a2 \<and> b1 < p \<and> p < b2"
  then show "a1 < b2 \<and> b1 < a2" by auto
qed




lemma spiral_loop_from:
  "n \<le> 200 \<Longrightarrow>
   spiral_loop its refX refY width height (0.8 * real n) (15 * real n)
     (fst (cand refX refY n)) (snd (cand refX refY n)) n =
   (case find (\<lambda>k. free_at its width height (cand refX refY k)) [n..<200] of
      Some k \<Rightarrow> cand refX refY k | None \<Rightarrow> cand refX refY 200)"
proof (induction "200 - n" arbitrary: n)
  case 0
  then have n: "n = 200" by simp
  show ?case unfolding n by (subst spiral_loop.simps) simp
next
  case (Suc d)
  then have lt: "n < 200" by simp
  have up: "[n..<200] = n # [Suc n..<200]" using lt by (simp add: upt_conv_Cons)
  show ?case
  proof (cases "free_at its width height (cand refX refY n)")
    case True
    then show ?thesis unfolding up
      by (subst spiral_loop.simps) (simp add: free_at_def)
  next
    case False
    have step: "0.8 * real n + 0.8 = 0.8 * real (Suc n)" "15 * real n + 15 = 15 * real (Suc n)"
      by (simp_all add: algebra_simps)
    have IH: "spiral_loop its refX refY width height (0.8 * real (Suc n)) (15 * real (Suc n))
     (fst (cand refX refY (Suc n))) (snd (cand refX refY (Suc n))) (Suc n) =
   (case find (\<lambda>k. free_at its width height (cand refX refY k)) [Suc n..<200] of
      Some k \<Rightarrow> cand refX refY k | None \<Rightarrow> cand refX refY 200)"
      using Suc(1)[of "Suc n"] Suc(2) lt by simp
    have c: "cand refX refY (Suc n) =
      (refX + cos (0.8 * real (Suc n)) * (15 * real (Suc n)),
       refY + sin (0.8 * real (Suc n)) * (15 * real (Suc n)))"
      by (simp only: cand_def)
    show ?thesis unfolding up
      apply (subst spiral_loop.simps)
      using False lt IH
      apply (simp only: step free_at_def c fst_conv snd_conv find.simps)
      apply (simp add: free_at_def)
      done
  qed
qed

lemma cand_0: "cand refX refY 0 = (refX, refY)"
  by (simp add: cand_def)

lemma findBestPosition_spiral_find:
  "findBestPosition its refX refY width height Spiral =
   (case find (\<lambda>k. free_at its width height (cand refX refY k)) [0..<200] of
      Some k \<Rightarrow> cand refX refY k | None \<Rightarrow> cand refX refY 200)"
  using spiral_loop_from[of 0 its refX refY width height]
  by (simp add: findBestPosition_def cand_0)

lemma find_app: "find P (xs @ ys) = (case find P xs of Some x \<Rightarrow> Some x | None \<Rightarrow> find P ys)"
  by (induction xs) auto

lemma find_upt_first:
  "k < m \<Longrightarrow> P k \<Longrightarrow> (\<forall>j<k. \<not> P j) \<Longrightarrow> find P [0..<m] = Some k"
proof (induction m)
  case 0 then show ?case by simp
next
  case (Suc m)
  show ?case
  proof (cases "k < m")
    case True
    then have "find P [0..<m] = Some k" using Suc by simp
    then show ?thesis by (simp add: find_app)
  next
    case False
    then have km: "k = m" using Suc.prems by simp
    have "find P [0..<m] = None" using Suc.prems km by (auto simp: find_None_iff)
    then show ?thesis using Suc.prems km by (simp add: find_app)
  qed
qed


lemma find_upt_Some:
  "find P [0..<m] = Some k \<Longrightarrow> k < m \<and> P k \<and> (\<forall>j<k. \<not> P j)"
proof (induction m)
  case 0 then show ?case by simp
next
  case (Suc m)
  show ?case
  proof (cases "find P [0..<m]")
    case None
    then have no: "\<forall>j<m. \<not> P j" by (auto simp: find_None_iff)
    from None Suc.prems have "k = m \<and> P m" by (simp add: find_app split: if_splits)
    then show ?thesis using no by simp
  next
    case (Some a)
    then have "a = k" using Suc.prems by (simp add: find_app)
    then show ?thesis using Suc.IH Some by auto
  qed
qed

text \<open>
  C3. In spiral mode \<^verbatim>\<open>findBestPosition\<close> returns the first candidate of the spiral
  (radius \<open>15 k\<close>, angle \<open>0.8 k\<close>, \<open>k = 0, 1, ...\<close>) that is free; with no free candidate
  among the first 200 it returns candidate 200. So a free \<open>(refX, refY)\<close> is returned
  unchanged, the result is free whenever a candidate up to number 200 is free, and the
  function always returns one of the candidates.
\<close>

theorem findBestPosition_spiral:
  "(\<forall>k<200. free_at its width height (cand refX refY k) \<longrightarrow>
       (\<forall>j<k. \<not> free_at its width height (cand refX refY j)) \<longrightarrow>
       findBestPosition its refX refY width height Spiral = cand refX refY k)
   \<and> ((\<forall>k<200. \<not> free_at its width height (cand refX refY k)) \<longrightarrow>
       findBestPosition its refX refY width height Spiral = cand refX refY 200)
   \<and> (free_at its width height (refX, refY) \<longrightarrow>
       findBestPosition its refX refY width height Spiral = (refX, refY))
   \<and> ((\<exists>k\<le>200. free_at its width height (cand refX refY k)) \<longrightarrow>
       free_at its width height (findBestPosition its refX refY width height Spiral))
   \<and> (\<exists>k\<le>200. findBestPosition its refX refY width height Spiral = cand refX refY k)"
proof -
  let ?P = "\<lambda>k. free_at its width height (cand refX refY k)"
  let ?r = "findBestPosition its refX refY width height Spiral"
  have r: "?r = (case find ?P [0..<200] of Some k \<Rightarrow> cand refX refY k
                 | None \<Rightarrow> cand refX refY 200)"
    by (rule findBestPosition_spiral_find)
  have first: "\<forall>k<200. ?P k \<longrightarrow> (\<forall>j<k. \<not> ?P j) \<longrightarrow> ?r = cand refX refY k"
    using find_upt_first[of _ 200 ?P] r by simp
  have none: "(\<forall>k<200. \<not> ?P k) \<longrightarrow> ?r = cand refX refY 200"
  proof
    assume "\<forall>k<200. \<not> ?P k"
    then have "find ?P [0..<200] = None" by (auto simp: find_None_iff)
    then show "?r = cand refX refY 200" using r by simp
  qed
  have start: "free_at its width height (refX, refY) \<longrightarrow> ?r = (refX, refY)"
    using first cand_0[of refX refY] by (metis not_less_zero zero_less_numeral)
  have ex: "\<exists>k\<le>200. ?r = cand refX refY k"
  proof (cases "find ?P [0..<200]")
    case None then show ?thesis using r by auto
  next
    case (Some k)
    then have "k \<le> 200" using find_upt_Some[of ?P 200 k] by simp
    moreover have "?r = cand refX refY k" using r Some by simp
    ultimately show ?thesis by blast
  qed
  have free: "(\<exists>k\<le>200. ?P k) \<longrightarrow> free_at its width height ?r"
  proof
    assume "\<exists>k\<le>200. ?P k"
    then obtain k where k: "k \<le> 200" "?P k" by blast
    show "free_at its width height ?r"
    proof (cases "find ?P [0..<200]")
      case None
      then have "\<forall>j<200. \<not> ?P j" by (auto simp: find_None_iff)
      then have "k = 200" using k by (metis le_neq_implies_less)
      then show ?thesis using r None k by simp
    next
      case (Some a)
      then show ?thesis using r find_upt_Some[of ?P 200 a] by simp
    qed
  qed
  show ?thesis using first none start free ex by blast
qed

lemma cos_sin_far:
  fixes t :: real
  shows "\<bar>cos t * 315\<bar> \<ge> 220 \<or> \<bar>sin t * 315\<bar> \<ge> 220"
proof (rule ccontr)
  assume "\<not> ?thesis"
  then have c: "\<bar>cos t\<bar> < 44 / 63" and s: "\<bar>sin t\<bar> < 44 / 63" by (simp_all add: abs_mult)
  have "(cos t)\<^sup>2 = \<bar>cos t\<bar>\<^sup>2" by simp
  also have "\<dots> < (44 / 63)\<^sup>2" using c by (intro power_strict_mono) simp_all
  finally have c2: "(cos t)\<^sup>2 < (44 / 63)\<^sup>2" .
  have "(sin t)\<^sup>2 = \<bar>sin t\<bar>\<^sup>2" by simp
  also have "\<dots> < (44 / 63)\<^sup>2" using s by (intro power_strict_mono) simp_all
  finally have s2: "(sin t)\<^sup>2 < (44 / 63)\<^sup>2" .
  have "(sin t)\<^sup>2 + (cos t)\<^sup>2 = 1" by simp
  then show False using c2 s2 by (simp add: power2_eq_square)
qed

lemma cand_21_free:
  "free_at [sticky_at ''a'' 100 100] 180 180 (cand 100 100 21)"
  using cos_sin_far[of "0.8 * 21"]
  by (auto simp: free_at_def checkOverlap_def sticky_at_def cand_def buffer_def abs_if
      split: if_splits)

theorem findBestPosition_spiral_witness:
  "\<not> free_at [sticky_at ''a'' 100 100] 180 180 (100, 100)
   \<and> free_at [sticky_at ''a'' 100 100] 180 180
       (findBestPosition [sticky_at ''a'' 100 100] 100 100 180 180 Spiral)
   \<and> findBestPosition [sticky_at ''a'' 100 100] 500 500 180 180 Spiral = (500, 500)"
proof -
  have a: "\<not> free_at [sticky_at ''a'' 100 100] 180 180 (100, 100)"
    by (simp add: free_at_def checkOverlap_def sticky_at_def buffer_def)
  have e: "\<exists>k\<le>200. free_at [sticky_at ''a'' 100 100] 180 180 (cand 100 100 k)"
    using cand_21_free by (intro exI[of _ 21]) simp
  have f: "free_at [sticky_at ''a'' 100 100] 180 180 (500, 500)"
    by (simp add: free_at_def checkOverlap_def sticky_at_def buffer_def)
  show ?thesis
    using findBestPosition_spiral[of "[sticky_at ''a'' 100 100]" 180 180 100 100]
          findBestPosition_spiral[of "[sticky_at ''a'' 100 100]" 180 180 500 500]
          a e f
    by blast
qed

section \<open>Properties of the viewport transform controller\<close>

text \<open>
  C9. Each viewport operation (wheel zoom of either file, zoom-in button, zoom-out button,
  reset view, focus-mode entry) keeps the scale within \<open>[0.1, 5]\<close> when it was within
  these bounds before.
\<close>

theorem scale_clamp_invariant:
  assumes "scale_ok st"
  shows "scale_ok (handleWheel e st)
       \<and> scale_ok (handleWheel_part000 container e st)
       \<and> scale_ok (zoomIn st)
       \<and> scale_ok (zoomOut st)
       \<and> scale_ok (resetView st)
       \<and> scale_ok (enterFocusMode container ident kind targetX targetY st)"
proof -
  have 1: "scale_ok (handleWheel e st)"
    using assms by (auto simp: scale_ok_def handleWheel_def Let_def min_def max_def)
  have 2: "scale_ok (handleWheel_part000 container e st)"
    using assms
    by (cases container) (auto simp: scale_ok_def handleWheel_part000_def Let_def min_def max_def)
  have 3: "scale_ok (zoomIn st)"
    using assms by (auto simp: scale_ok_def zoomIn_def min_def)
  have 4: "scale_ok (zoomOut st)"
    using assms by (auto simp: scale_ok_def zoomOut_def max_def)
  have 5: "scale_ok (resetView st)"
    by (simp add: scale_ok_def resetView_def)
  have 6: "scale_ok (enterFocusMode container ident kind targetX targetY st)"
    using assms by (cases container) (simp_all add: scale_ok_def enterFocusMode_def Let_def)
  show ?thesis using 1 2 3 4 5 6 by simp
qed

theorem scale_clamp_invariant_witness:
  "scale_ok initial_state
   \<and> t_s (transform (handleWheel (wheel_at 100 100 (-10000)) initial_state)) = 5
   \<and> scale_ok (handleWheel (wheel_at 100 100 (-10000)) initial_state)
   \<and> t_s (transform (handleWheel (wheel_at 100 100 10000) initial_state)) = 0.1
   \<and> scale_ok (handleWheel (wheel_at 100 100 10000) initial_state)
   \<and> scale_ok (zoomIn initial_state)
   \<and> scale_ok (zoomOut initial_state)
   \<and> scale_ok (resetView initial_state)
   \<and> scale_ok (enterFocusMode (Some sample_rect) ''1'' FocusNode 550 50 initial_state)"
proof -
  have ok: "scale_ok initial_state" by (simp add: scale_ok_def initial_state_def)
  have a: "t_s (transform (handleWheel (wheel_at 100 100 (-10000)) initial_state)) = 5"
    by (simp add: handleWheel_def initial_state_def wheel_at_def truthy_def Let_def)
  have b: "t_s (transform (handleWheel (wheel_at 100 100 10000) initial_state)) = 0.1"
    by (simp add: handleWheel_def initial_state_def wheel_at_def truthy_def Let_def)
  show ?thesis
    using ok a b
      scale_clamp_invariant[OF ok, of "wheel_at 100 100 (-10000)" "Some sample_rect" "''1''"
        FocusNode 550 50]
      scale_clamp_invariant[OF ok, of "wheel_at 100 100 10000" "Some sample_rect" "''1''"
        FocusNode 550 50]
    by simp
qed

text \<open>
  C2. The claim fails on \<^verbatim>\<open>App.tsx\<close>, whose wheel handler changes the scale and
  nothing else: zooming from scale 1 to scale 2 with the pointer at \<open>(100, 100)\<close> moves the
  board point under the pointer to the pixel \<open>(200, 200)\<close>.
\<close>

theorem handleWheel_moves_point_under_cursor:
  "\<not> truthy (focusModeId initial_state)
   \<and> to_board (transform initial_state) (cursor_in sample_rect (wheel_at 100 100 (-1000)))
       = (100, 100)
   \<and> to_screen (transform (handleWheel (wheel_at 100 100 (-1000)) initial_state))
        (to_board (transform initial_state) (cursor_in sample_rect (wheel_at 100 100 (-1000))))
       = (200, 200)
   \<and> to_screen (transform (handleWheel (wheel_at 100 100 (-1000)) initial_state))
        (to_board (transform initial_state) (cursor_in sample_rect (wheel_at 100 100 (-1000))))
       \<noteq> cursor_in sample_rect (wheel_at 100 100 (-1000))"
  by (simp add: handleWheel_def initial_state_def wheel_at_def truthy_def Let_def
      to_board_def to_screen_def cursor_in_def sample_rect_def)

text \<open>
  C2, amended. The wheel handler of \<^verbatim>\<open>part_000\<close>, with a mounted container and a
  non-zero scale, sets the scale to \<open>clamp (s - deltaY * 0.001) 0.1 5\<close> and recomputes the
  offsets so that the board point that was under the pointer is drawn at the pointer's
  pixel and is still the board point under the pointer. The wheel handler of
  \<^verbatim>\<open>App.tsx\<close>, outside focus mode, sets the scale to the same value and leaves the
  offsets as they were.
\<close>

theorem handleWheel_zoom_to_cursor:
  fixes st :: "'a board_ui_scheme"
  assumes "t_s (transform st) \<noteq> 0"
  shows "t_s (transform (handleWheel_part000 (Some r) e st))
           = min (max (t_s (transform st) - deltaY e * 0.001) 0.1) 5
       \<and> to_screen (transform (handleWheel_part000 (Some r) e st))
            (to_board (transform st) (cursor_in r e)) = cursor_in r e
       \<and> to_board (transform (handleWheel_part000 (Some r) e st)) (cursor_in r e)
            = to_board (transform st) (cursor_in r e)
       \<and> (\<not> truthy (focusModeId st) \<longrightarrow>
            transform (handleWheel e st)
              = (transform st)\<lparr>t_s := min (max (t_s (transform st) - deltaY e * 0.001) 0.1) 5\<rparr>)"
proof -
  let ?n = "min (max (t_s (transform st) - deltaY e * 0.001) 0.1) 5"
  have n0: "?n \<noteq> 0" by (simp add: min_def max_def)
  have 1: "t_s (transform (handleWheel_part000 (Some r) e st)) = ?n"
    by (simp add: handleWheel_part000_def Let_def)
  have 2: "to_screen (transform (handleWheel_part000 (Some r) e st))
            (to_board (transform st) (cursor_in r e)) = cursor_in r e"
    by (simp add: handleWheel_part000_def Let_def to_screen_def to_board_def cursor_in_def)
  have 3: "to_board (transform (handleWheel_part000 (Some r) e st)) (cursor_in r e)
            = to_board (transform st) (cursor_in r e)"
    using n0 by (simp add: handleWheel_part000_def Let_def to_board_def cursor_in_def)
  have 4: "\<not> truthy (focusModeId st) \<longrightarrow>
            transform (handleWheel e st) = (transform st)\<lparr>t_s := ?n\<rparr>"
    by (simp add: handleWheel_def Let_def max.commute)
  show ?thesis using 1 2 3 4 by simp
qed

theorem handleWheel_zoom_to_cursor_witness:
  "t_s (transform (initial_state_part000 0)) \<noteq> 0
   \<and> transform (handleWheel_part000 (Some sample_rect) (wheel_at 100 100 (-1000))
        (initial_state_part000 0)) = \<lparr>t_x = -100, t_y = -100, t_s = 2\<rparr>
   \<and> to_screen (transform (handleWheel_part000 (Some sample_rect) (wheel_at 100 100 (-1000))
        (initial_state_part000 0)))
        (to_board (transform (initial_state_part000 0))
           (cursor_in sample_rect (wheel_at 100 100 (-1000))))
       = (100, 100)
   \<and> \<not> truthy (focusModeId initial_state)
   \<and> transform (handleWheel (wheel_at 100 100 (-1000)) initial_state)
       = \<lparr>t_x = 0, t_y = 0, t_s = 2\<rparr>"
proof -
  have h: "t_s (transform (initial_state_part000 0)) \<noteq> 0"
    by (simp add: initial_state_part000_def)
  have g: "t_s (transform initial_state) \<noteq> 0"
    by (simp add: initial_state_def)
  have t: "transform (handleWheel_part000 (Some sample_rect) (wheel_at 100 100 (-1000))
        (initial_state_part000 0)) = \<lparr>t_x = -100, t_y = -100, t_s = 2\<rparr>"
    by (simp add: handleWheel_part000_def initial_state_part000_def wheel_at_def Let_def
        sample_rect_def)
  have c: "cursor_in sample_rect (wheel_at 100 100 (-1000)) = (100, 100)"
    by (simp add: cursor_in_def sample_rect_def wheel_at_def)
  have f: "\<not> truthy (focusModeId initial_state)"
    by (simp add: initial_state_def truthy_def)
  have v: "transform initial_state = \<lparr>t_x = 0, t_y = 0, t_s = 1\<rparr>"
          "deltaY (wheel_at 100 100 (-1000)) = -1000"
    by (simp_all add: initial_state_def wheel_at_def)
  show ?thesis
    using h t c f
      handleWheel_zoom_to_cursor[OF h, of sample_rect "wheel_at 100 100 (-1000)"]
      handleWheel_zoom_to_cursor[OF g, of sample_rect "wheel_at 100 100 (-1000)"]
    by (simp add: v)
qed

section \<open>Properties of node deletion\<close>

lemma find_map_same:
  "(\<And>a. P (f a) = P a) \<Longrightarrow> find P (map f xs) = map_option f (find P xs)"
  by (induction xs) auto

lemma room_selected_find:
  "room_selected st \<Longrightarrow>
   \<exists>r. find (\<lambda>r. Some (room_id r) = activeRoomId st) (rooms st) = Some r"
  by (cases "find (\<lambda>r. Some (room_id r) = activeRoomId st) (rooms st)")
     (auto simp: room_selected_def list_ex_iff find_None_iff)

lemma activeRoom_updateActiveRoom:
  assumes "room_selected st" and "activeRoomId c = activeRoomId st"
  shows "\<exists>r. activeRoom st = Some r \<and>
           activeRoom (updateActiveRoom c now its lks st)
             = Some (r\<lparr>room_items := its, room_links := lks, room_updatedAt := now\<rparr>)"
proof -
  let ?P = "\<lambda>r. Some (room_id r) = activeRoomId st"
  let ?f = "\<lambda>r. if Some (room_id r) = activeRoomId st
                 then r\<lparr>room_items := its, room_links := lks, room_updatedAt := now\<rparr> else r"
  obtain r where r: "find ?P (rooms st) = Some r"
    using room_selected_find[OF assms(1)] by blast
  then have Pr: "?P r" by (auto simp: find_Some_iff)
  have "find ?P (map ?f (rooms st)) = map_option ?f (find ?P (rooms st))"
    by (rule find_map_same) simp
  then have "find ?P (map ?f (rooms st)) = Some (?f r)" using r by simp
  then have "activeRoom (updateActiveRoom c now its lks st) = Some (?f r)"
    using assms(2) by (simp add: activeRoom_def updateActiveRoom_def)
  moreover have "activeRoom st = Some r" using r by (simp add: activeRoom_def)
  ultimately show ?thesis using Pr by simp
qed

lemma board_after_updateActiveRoom:
  assumes "room_selected st" and "activeRoomId c = activeRoomId st"
  shows "boardItems_part000 (updateActiveRoom c now its lks st) = its"
    and "boardLinks_part000 (updateActiveRoom c now its lks st) = lks"
  using activeRoom_updateActiveRoom[OF assms, of now its lks]
  by (auto simp: boardItems_part000_def boardLinks_part000_def)

text \<open>
  In \<^verbatim>\<open>App.tsx\<close> the delayed callback of \<^verbatim>\<open>handleDeleteItem\<close> removes the node and
  every link that has it as an endpoint, whatever happened to the board during the delay.
\<close>

lemma handleDeleteItem_cascade:
  "handleDeleteItem ident st = (st1, delay, callback) \<Longrightarrow>
   delay = 300
   \<and> ident \<notin> item_id ` set (boardItems (callback st2))
   \<and> (\<forall>l \<in> set (boardLinks (callback st2)). link_fromId l \<noteq> ident \<and> link_toId l \<noteq> ident)
   \<and> boardItems (callback st2) = filter (\<lambda>item. item_id item \<noteq> ident) (boardItems st2)
   \<and> boardLinks (callback st2)
       = filter (\<lambda>l. link_fromId l \<noteq> ident \<and> link_toId l \<noteq> ident) (boardLinks st2)"
  by (auto simp: handleDeleteItem_def handleDeleteItem_timeout_def Let_def)

text \<open>
  C1. In \<^verbatim>\<open>part_000\<close> the claim fails. Deleting the node \<open>''2''\<close> of the initial board,
  to which all four links are attached, and letting the timer run, leaves no link but
  leaves the node in the room: the callback calls \<^verbatim>\<open>setBoardItems\<close> with the filtered
  nodes and then \<^verbatim>\<open>setBoardLinks\<close>, which is
  \<^verbatim>\<open>(l) => updateActiveRoom(activeRoom.items, l)\<close> and writes the unfiltered nodes of
  its closure back.
\<close>

theorem handleDeleteItem_part000_keeps_node:
  "(case handleDeleteItem_part000 (initial_state_part000 0) ''2'' (initial_state_part000 0) of
      (st1, delay, callback) \<Rightarrow>
        delay = 300
        \<and> boardItems_part000 (callback 1 st1) = INITIAL_BOARD_ITEMS
        \<and> map item_id (boardItems_part000 (callback 1 st1))
            = [''1'', ''2'', ''3'', ''4'', ''5'']
        \<and> boardLinks_part000 (callback 1 st1) = [])"
  by (simp add: handleDeleteItem_part000_def handleDeleteItem_timeout_part000_def
      setBoardItems_part000_def setBoardLinks_part000_def updateActiveRoom_def
      boardItems_part000_def boardLinks_part000_def activeRoom_def
      initial_state_part000_def DEFAULT_ROOMS_def INITIAL_BOARD_ITEMS_def
      INITIAL_BOARD_LINKS_def Let_def)
text \<open>
  The defect behind C1, for every board of \<^verbatim>\<open>part_000\<close>: when the timer runs on a state
  with the same active room, the nodes of the room are those of the closure, the deleted
  one included; only the links are filtered.
\<close>

lemma list_ex_map_same:
  "(\<And>a. P (f a) = P a) \<Longrightarrow> list_ex P (map f xs) = list_ex P xs"
  by (induction xs) auto

lemma room_selected_updateActiveRoom:
  "room_selected (updateActiveRoom c now its lks st) = room_selected st"
  unfolding room_selected_def updateActiveRoom_def
  by (simp, rule list_ex_map_same) simp

lemma handleDeleteItem_timeout_part000_board:
  assumes "room_selected st2" and "activeRoomId c = activeRoomId st2"
  shows "boardItems_part000 (handleDeleteItem_timeout_part000 c ident now st2)
           = boardItems_part000 c"
    and "boardLinks_part000 (handleDeleteItem_timeout_part000 c ident now st2)
           = filter (\<lambda>l. link_fromId l \<noteq> ident \<and> link_toId l \<noteq> ident)
               (boardLinks_part000 c)"
proof -
  let ?its = "filter (\<lambda>item. item_id item \<noteq> ident) (boardItems_part000 c)"
  let ?lks = "filter (\<lambda>l. link_fromId l \<noteq> ident \<and> link_toId l \<noteq> ident)
                (boardLinks_part000 c)"
  let ?st1 = "setBoardItems_part000 c now ?its st2"
  let ?st2 = "setBoardLinks_part000 c now ?lks ?st1"
  have sel1: "room_selected ?st1" "activeRoomId c = activeRoomId ?st1"
    using assms room_selected_updateActiveRoom[of c now ?its "boardLinks_part000 c" st2]
    by (simp_all add: setBoardItems_part000_def) (simp add: updateActiveRoom_def)
  have its: "boardItems_part000 ?st2 = boardItems_part000 c"
    and lks: "boardLinks_part000 ?st2 = ?lks"
    unfolding setBoardLinks_part000_def
    using board_after_updateActiveRoom[OF sel1] by simp_all
  have rooms: "rooms (handleDeleteItem_timeout_part000 c ident now st2) = rooms ?st2"
    "activeRoomId (handleDeleteItem_timeout_part000 c ident now st2) = activeRoomId ?st2"
    by (simp_all add: handleDeleteItem_timeout_part000_def Let_def exitFocusMode_def)
  have same: "\<And>a b. rooms a = rooms b \<Longrightarrow> activeRoomId a = activeRoomId b \<Longrightarrow>
    boardItems_part000 a = boardItems_part000 b \<and> boardLinks_part000 a = boardLinks_part000 b"
    by (simp add: boardItems_part000_def boardLinks_part000_def activeRoom_def
        split: option.splits)
  show "boardItems_part000 (handleDeleteItem_timeout_part000 c ident now st2)
           = boardItems_part000 c"
    using same[OF rooms] its by simp
  show "boardLinks_part000 (handleDeleteItem_timeout_part000 c ident now st2) = ?lks"
    using same[OF rooms] lks by simp
qed

text \<open>
  C5. The claim fails on \<^verbatim>\<open>part_000\<close>: with the node \<open>''2''\<close> selected, the state
  right after \<^verbatim>\<open>handleDeleteItem('2')\<close> still has it selected.
\<close>

theorem handleDeleteItem_part000_selection_not_cleared:
  "selectedId selected_state_part000 = Some ''2''
   \<and> selectedId (fst (handleDeleteItem_part000 selected_state_part000 ''2''
         selected_state_part000)) = Some ''2''"
  by (simp add: handleDeleteItem_part000_def selected_state_part000_def)

text \<open>
  C5, amended. In both files the call adds the id to the deleting set, schedules a callback
  with a delay of 300 and leaves nodes and links as they are. In \<^verbatim>\<open>App.tsx\<close> the call
  itself clears the selection and the focus target when they are the id, and the callback
  removes the node and its links and touches neither selection nor focus. In
  \<^verbatim>\<open>part_000\<close> the call leaves selection and focus as they are; the callback clears
  them when they were the id at the time of the call.
\<close>

theorem handleDeleteItem_timing:
  "(case handleDeleteItem ident st of
      (st1, delay, callback) \<Rightarrow>
        delay = 300
        \<and> deletingIds st1 = insert ident (deletingIds st)
        \<and> boardItems st1 = boardItems st \<and> boardLinks st1 = boardLinks st
        \<and> selectedId st1 = (if selectedId st = Some ident then None else selectedId st)
        \<and> focusModeId st1 = (if focusModeId st = Some ident then None else focusModeId st)
        \<and> boardItems (callback st2) = filter (\<lambda>item. item_id item \<noteq> ident) (boardItems st2)
        \<and> boardLinks (callback st2)
            = filter (\<lambda>l. link_fromId l \<noteq> ident \<and> link_toId l \<noteq> ident) (boardLinks st2)
        \<and> deletingIds (callback st2) = deletingIds st2 - {ident}
        \<and> selectedId (callback st2) = selectedId st2
        \<and> focusModeId (callback st2) = focusModeId st2)
   \<and> (case handleDeleteItem_part000 c ident pst of
      (st1, delay, callback) \<Rightarrow>
        delay = 300
        \<and> deletingIds st1 = insert ident (deletingIds pst)
        \<and> rooms st1 = rooms pst
        \<and> selectedId st1 = selectedId pst
        \<and> focusModeId st1 = focusModeId pst
        \<and> deletingIds (callback now pst2) = deletingIds pst2 - {ident}
        \<and> selectedId (callback now pst2)
            = (if selectedId c = Some ident then None else selectedId pst2)
        \<and> focusModeId (callback now pst2)
            = (if focusModeId c = Some ident then None else focusModeId pst2))"
proof
  show "case handleDeleteItem ident st of
      (st1, delay, callback) \<Rightarrow>
        delay = 300
        \<and> deletingIds st1 = insert ident (deletingIds st)
        \<and> boardItems st1 = boardItems st \<and> boardLinks st1 = boardLinks st
        \<and> selectedId st1 = (if selectedId st = Some ident then None else selectedId st)
        \<and> focusModeId st1 = (if focusModeId st = Some ident then None else focusModeId st)
        \<and> boardItems (callback st2) = filter (\<lambda>item. item_id item \<noteq> ident) (boardItems st2)
        \<and> boardLinks (callback st2)
            = filter (\<lambda>l. link_fromId l \<noteq> ident \<and> link_toId l \<noteq> ident) (boardLinks st2)
        \<and> deletingIds (callback st2) = deletingIds st2 - {ident}
        \<and> selectedId (callback st2) = selectedId st2
        \<and> focusModeId (callback st2) = focusModeId st2"
    by (simp add: handleDeleteItem_def handleDeleteItem_timeout_def Let_def)
  show "case handleDeleteItem_part000 c ident pst of
      (st1, delay, callback) \<Rightarrow>
        delay = 300
        \<and> deletingIds st1 = insert ident (deletingIds pst)
        \<and> rooms st1 = rooms pst
        \<and> selectedId st1 = selectedId pst
        \<and> focusModeId st1 = focusModeId pst
        \<and> deletingIds (callback now pst2) = deletingIds pst2 - {ident}
        \<and> selectedId (callback now pst2)
            = (if selectedId c = Some ident then None else selectedId pst2)
        \<and> focusModeId (callback now pst2)
            = (if focusModeId c = Some ident then None else focusModeId pst2)"
    by (simp add: handleDeleteItem_part000_def handleDeleteItem_timeout_part000_def Let_def
        setBoardItems_part000_def setBoardLinks_part000_def updateActiveRoom_def
        exitFocusMode_def)
qed

theorem handleDeleteItem_timing_witness:
  "(case handleDeleteItem ''2'' selected_state of
      (st1, delay, callback) \<Rightarrow>
        delay = 300 \<and> deletingIds st1 = {''2''}
        \<and> boardItems st1 = INITIAL_BOARD_ITEMS \<and> boardLinks st1 = INITIAL_BOARD_LINKS
        \<and> selectedId st1 = None \<and> focusModeId st1 = None
        \<and> map item_id (boardItems (callback st1)) = [''1'', ''3'', ''4'', ''5'']
        \<and> boardLinks (callback st1) = []
        \<and> deletingIds (callback st1) = {})
   \<and> (case handleDeleteItem_part000 selected_state_part000 ''2'' selected_state_part000 of
      (st1, delay, callback) \<Rightarrow>
        delay = 300 \<and> deletingIds st1 = {''2''}
        \<and> selectedId st1 = Some ''2''
        \<and> selectedId (callback 1 st1) = None)"
proof -
  obtain st1 delay callback where h: "handleDeleteItem ''2'' selected_state = (st1, delay, callback)"
    by (cases "handleDeleteItem ''2'' selected_state") blast
  obtain pst1 pdelay pcallback where
    p: "handleDeleteItem_part000 selected_state_part000 ''2'' selected_state_part000
          = (pst1, pdelay, pcallback)"
    by (cases "handleDeleteItem_part000 selected_state_part000 ''2'' selected_state_part000")
       blast
  have s: "selectedId selected_state = Some ''2''" "focusModeId selected_state = Some ''2''"
    "deletingIds selected_state = {}" "boardItems selected_state = INITIAL_BOARD_ITEMS"
    "boardLinks selected_state = INITIAL_BOARD_LINKS"
    by (simp_all add: selected_state_def initial_state_def)
  have ps: "selectedId selected_state_part000 = Some ''2''"
    "deletingIds selected_state_part000 = {}"
    by (simp_all add: selected_state_part000_def initial_state_part000_def)
  have f: "map item_id (filter (\<lambda>item. item_id item \<noteq> ''2'') INITIAL_BOARD_ITEMS)
             = [''1'', ''3'', ''4'', ''5'']"
    "filter (\<lambda>l. link_fromId l \<noteq> ''2'' \<and> link_toId l \<noteq> ''2'') INITIAL_BOARD_LINKS = []"
    by (simp_all add: INITIAL_BOARD_ITEMS_def INITIAL_BOARD_LINKS_def)
  show ?thesis
    using handleDeleteItem_timing[where ident="''2''" and st=selected_state and ?st2.0=st1
            and c=selected_state_part000 and pst=selected_state_part000 and now=1
            and ?pst2.0=pst1]
    by (simp add: h p s ps f)
qed

section \<open>Properties of the pointer state machine\<close>

lemma board_part000_cong:
  "rooms a = rooms b \<Longrightarrow> activeRoomId a = activeRoomId b \<Longrightarrow>
   boardItems_part000 a = boardItems_part000 b \<and> boardLinks_part000 a = boardLinks_part000 b"
  by (simp add: boardItems_part000_def boardLinks_part000_def activeRoom_def
      split: option.splits)

lemma handleMouseDown_part000_append:
  assumes "pendingLinkStart pst = Some source" "source \<noteq> []" "room_selected pst"
    and "target \<noteq> source" "target \<noteq> []"
  shows "boardLinks_part000 (handleMouseDown_part000 pst now newId e (Some target) pst)
           = boardLinks_part000 pst @
               [\<lparr>link_id = newId, link_fromId = source, link_toId = target,
                 link_variant = activeLinkVariant pst\<rparr>]"
    and "boardItems_part000 (handleMouseDown_part000 pst now newId e (Some target) pst)
           = boardItems_part000 pst"
    and "pendingLinkStart (handleMouseDown_part000 pst now newId e (Some target) pst) = None"
proof -
  let ?l = "\<lparr>link_id = newId, link_fromId = source, link_toId = target,
               link_variant = activeLinkVariant pst\<rparr>"
  let ?st0 = "pst\<lparr>lastMousePos := (clientX e, clientY e)\<rparr>"
  let ?u = "updateActiveRoom pst now (boardItems_part000 pst) (boardLinks_part000 pst @ [?l]) ?st0"
  have r: "handleMouseDown_part000 pst now newId e (Some target) pst
             = ?u\<lparr>pendingLinkStart := None\<rparr>"
    using assms by (auto simp: handleMouseDown_part000_def truthy_def Let_def
        setBoardLinks_part000_def)
  have sel: "room_selected ?st0" "activeRoomId pst = activeRoomId ?st0"
    using assms by (simp_all add: room_selected_def)
  have u: "boardItems_part000 ?u = boardItems_part000 pst"
          "boardLinks_part000 ?u = boardLinks_part000 pst @ [?l]"
    using board_after_updateActiveRoom[OF sel] by simp_all
  have c: "boardItems_part000 (?u\<lparr>pendingLinkStart := None\<rparr>) = boardItems_part000 ?u"
          "boardLinks_part000 (?u\<lparr>pendingLinkStart := None\<rparr>) = boardLinks_part000 ?u"
    using board_part000_cong[of "?u\<lparr>pendingLinkStart := None\<rparr>" ?u] by simp_all
  show "boardLinks_part000 (handleMouseDown_part000 pst now newId e (Some target) pst)
         = boardLinks_part000 pst @ [?l]"
    using r u c by simp
  show "boardItems_part000 (handleMouseDown_part000 pst now newId e (Some target) pst)
         = boardItems_part000 pst"
    using r u c by simp
  show "pendingLinkStart (handleMouseDown_part000 pst now newId e (Some target) pst) = None"
    using r by simp
qed

lemma handleMouseDown_part000_no_append:
  assumes "\<not> (truthy ident \<and> truthy (pendingLinkStart pst) \<and> pendingLinkStart pst \<noteq> ident)"
  shows "boardLinks_part000 (handleMouseDown_part000 pst now newId e ident pst)
           = boardLinks_part000 pst"
proof -
  have "rooms (handleMouseDown_part000 pst now newId e ident pst) = rooms pst
      \<and> activeRoomId (handleMouseDown_part000 pst now newId e ident pst) = activeRoomId pst"
    using assms
    by (auto simp: handleMouseDown_part000_def truthy_def Let_def exitFocusMode_def
        split: option.splits if_splits)
  then show ?thesis using board_part000_cong by blast
qed

text \<open>
  C6. The claim fails for a press on the empty canvas with a button other than the primary
  one, which \<^verbatim>\<open>handleMouseDown\<close> ignores: the link gesture stays pending.
\<close>

theorem handleMouseDown_secondary_button_keeps_pending:
  "truthy (pendingLinkStart pending_state)
   \<and> pendingLinkStart (handleMouseDown ''n1'' (mouse_at 10 10 2) None pending_state)
       = Some ''1''"
  by (simp add: handleMouseDown_def pending_state_def initial_state_def mouse_at_def
      truthy_def Let_def)

text \<open>
  C6, amended. While a link gesture is pending from a source, in both files: a press of the
  primary button on the empty canvas, or any press on the source itself, clears the pending
  state and changes neither nodes nor links; a press on a node with another (non-empty) id
  appends exactly one link from the source to that node with the pending variant and clears
  the pending state; a press of another button on the empty canvas leaves the gesture
  pending. A link appended by \<^verbatim>\<open>handleMouseDown\<close> is never a self-loop.
\<close>

theorem link_pending_resolution:
  "(pendingLinkStart st = Some source \<and> source \<noteq> [] \<longrightarrow>
      (button e = 0 \<longrightarrow>
         handleMouseDown newId e None st
           = st\<lparr>lastMousePos := (clientX e, clientY e), pendingLinkStart := None\<rparr>)
    \<and> handleMouseDown newId e (Some source) st
           = st\<lparr>lastMousePos := (clientX e, clientY e), pendingLinkStart := None\<rparr>
    \<and> (target \<noteq> source \<and> target \<noteq> [] \<longrightarrow>
         handleMouseDown newId e (Some target) st
           = st\<lparr>lastMousePos := (clientX e, clientY e),
                 boardLinks := boardLinks st @
                   [\<lparr>link_id = newId, link_fromId = source, link_toId = target,
                     link_variant = activeLinkVariant st\<rparr>],
                 pendingLinkStart := None\<rparr>)
    \<and> (button e \<noteq> 0 \<longrightarrow>
         handleMouseDown newId e None st = st\<lparr>lastMousePos := (clientX e, clientY e)\<rparr>))
   \<and> (pendingLinkStart pst = Some source \<and> source \<noteq> [] \<and> room_selected pst \<longrightarrow>
      (button e = 0 \<longrightarrow>
         handleMouseDown_part000 pst now newId e None pst
           = pst\<lparr>lastMousePos := (clientX e, clientY e), pendingLinkStart := None\<rparr>)
    \<and> handleMouseDown_part000 pst now newId e (Some source) pst
           = pst\<lparr>lastMousePos := (clientX e, clientY e), pendingLinkStart := None\<rparr>
    \<and> (target \<noteq> source \<and> target \<noteq> [] \<longrightarrow>
         boardLinks_part000 (handleMouseDown_part000 pst now newId e (Some target) pst)
           = boardLinks_part000 pst @
               [\<lparr>link_id = newId, link_fromId = source, link_toId = target,
                 link_variant = activeLinkVariant pst\<rparr>]
         \<and> boardItems_part000 (handleMouseDown_part000 pst now newId e (Some target) pst)
           = boardItems_part000 pst
         \<and> pendingLinkStart (handleMouseDown_part000 pst now newId e (Some target) pst)
           = None)
    \<and> (button e \<noteq> 0 \<longrightarrow>
         handleMouseDown_part000 pst now newId e None pst
           = pst\<lparr>lastMousePos := (clientX e, clientY e)\<rparr>))
   \<and> (\<forall>l. boardLinks (handleMouseDown newId e ident st) = boardLinks st @ [l]
          \<longrightarrow> link_fromId l \<noteq> link_toId l)
   \<and> (\<forall>l. room_selected pst \<and>
          boardLinks_part000 (handleMouseDown_part000 pst now newId e ident pst)
            = boardLinks_part000 pst @ [l]
          \<longrightarrow> link_fromId l \<noteq> link_toId l)"
proof (intro conjI impI allI)
  assume h: "pendingLinkStart st = Some source \<and> source \<noteq> []"
  show "handleMouseDown newId e (Some source) st
           = st\<lparr>lastMousePos := (clientX e, clientY e), pendingLinkStart := None\<rparr>"
    using h by (simp add: handleMouseDown_def truthy_def Let_def)
  { assume "button e = 0"
    then show "handleMouseDown newId e None st
           = st\<lparr>lastMousePos := (clientX e, clientY e), pendingLinkStart := None\<rparr>"
      using h by (simp add: handleMouseDown_def truthy_def Let_def) }
  { assume "target \<noteq> source \<and> target \<noteq> []"
    then show "handleMouseDown newId e (Some target) st
           = st\<lparr>lastMousePos := (clientX e, clientY e),
                 boardLinks := boardLinks st @
                   [\<lparr>link_id = newId, link_fromId = source, link_toId = target,
                     link_variant = activeLinkVariant st\<rparr>],
                 pendingLinkStart := None\<rparr>"
      using h by (auto simp: handleMouseDown_def truthy_def Let_def) }
  { assume "button e \<noteq> 0"
    then show "handleMouseDown newId e None st = st\<lparr>lastMousePos := (clientX e, clientY e)\<rparr>"
      by (simp add: handleMouseDown_def truthy_def Let_def) }
next
  assume h: "pendingLinkStart pst = Some source \<and> source \<noteq> [] \<and> room_selected pst"
  show "handleMouseDown_part000 pst now newId e (Some source) pst
           = pst\<lparr>lastMousePos := (clientX e, clientY e), pendingLinkStart := None\<rparr>"
    using h by (simp add: handleMouseDown_part000_def truthy_def Let_def)
  { assume "button e = 0"
    then show "handleMouseDown_part000 pst now newId e None pst
           = pst\<lparr>lastMousePos := (clientX e, clientY e), pendingLinkStart := None\<rparr>"
      using h by (simp add: handleMouseDown_part000_def truthy_def Let_def) }
  { assume "button e \<noteq> 0"
    then show "handleMouseDown_part000 pst now newId e None pst
           = pst\<lparr>lastMousePos := (clientX e, clientY e)\<rparr>"
      by (simp add: handleMouseDown_part000_def truthy_def Let_def) }
  { assume t: "target \<noteq> source \<and> target \<noteq> []"
    show "boardLinks_part000 (handleMouseDown_part000 pst now newId e (Some target) pst)
           = boardLinks_part000 pst @
               [\<lparr>link_id = newId, link_fromId = source, link_toId = target,
                 link_variant = activeLinkVariant pst\<rparr>]"
      using handleMouseDown_part000_append(1)[of pst source target now newId e] h t by simp
    show "boardItems_part000 (handleMouseDown_part000 pst now newId e (Some target) pst)
           = boardItems_part000 pst"
      using handleMouseDown_part000_append(2)[of pst source target now newId e] h t by simp
    show "pendingLinkStart (handleMouseDown_part000 pst now newId e (Some target) pst) = None"
      using handleMouseDown_part000_append(3)[of pst source target now newId e] h t by simp }
next
  fix l
  assume a: "boardLinks (handleMouseDown newId e ident st) = boardLinks st @ [l]"
  show "link_fromId l \<noteq> link_toId l"
    using a
    by (auto simp: handleMouseDown_def truthy_def Let_def exitFocusMode_def
        split: if_splits option.splits)
next
  fix l
  assume a: "room_selected pst \<and>
          boardLinks_part000 (handleMouseDown_part000 pst now newId e ident pst)
            = boardLinks_part000 pst @ [l]"
  show "link_fromId l \<noteq> link_toId l"
  proof (cases "truthy ident \<and> truthy (pendingLinkStart pst) \<and> pendingLinkStart pst \<noteq> ident")
    case False
    then show ?thesis
      using a handleMouseDown_part000_no_append[of ident pst now newId e] by simp
  next
    case True
    then obtain source target where st: "pendingLinkStart pst = Some source" "source \<noteq> []"
      "ident = Some target" "target \<noteq> []" "target \<noteq> source"
      by (auto simp: truthy_def split: option.splits)
    then show ?thesis
      using a handleMouseDown_part000_append(1)[of pst source target now newId e] by auto
  qed
qed

theorem link_pending_resolution_witness:
  "pendingLinkStart pending_state = Some ''1''
   \<and> handleMouseDown ''n1'' (mouse_at 10 10 0) None pending_state
       = pending_state\<lparr>lastMousePos := (10, 10), pendingLinkStart := None\<rparr>
   \<and> handleMouseDown ''n1'' (mouse_at 10 10 2) (Some ''1'') pending_state
       = pending_state\<lparr>lastMousePos := (10, 10), pendingLinkStart := None\<rparr>
   \<and> handleMouseDown ''n1'' (mouse_at 10 10 0) (Some ''2'') pending_state
       = pending_state\<lparr>lastMousePos := (10, 10),
           boardLinks := INITIAL_BOARD_LINKS @
             [\<lparr>link_id = ''n1'', link_fromId = ''1'', link_toId = ''2'',
               link_variant = Positive\<rparr>],
           pendingLinkStart := None\<rparr>
   \<and> room_selected pending_state_part000
   \<and> boardLinks_part000
         (handleMouseDown_part000 pending_state_part000 1 ''n1'' (mouse_at 10 10 0)
            (Some ''2'') pending_state_part000)
       = INITIAL_BOARD_LINKS @
           [\<lparr>link_id = ''n1'', link_fromId = ''1'', link_toId = ''2'',
             link_variant = Positive\<rparr>]
   \<and> boardItems_part000
         (handleMouseDown_part000 pending_state_part000 1 ''n1'' (mouse_at 10 10 0)
            (Some ''2'') pending_state_part000)
       = INITIAL_BOARD_ITEMS"
proof -
  have a: "pendingLinkStart pending_state = Some ''1''"
    "activeLinkVariant pending_state = Positive"
    "boardLinks pending_state = INITIAL_BOARD_LINKS"
    by (simp_all add: pending_state_def initial_state_def)
  have b: "pendingLinkStart pending_state_part000 = Some ''1''"
    "activeLinkVariant pending_state_part000 = Positive"
    "room_selected pending_state_part000"
    "boardLinks_part000 pending_state_part000 = INITIAL_BOARD_LINKS"
    "boardItems_part000 pending_state_part000 = INITIAL_BOARD_ITEMS"
    by (simp_all add: pending_state_part000_def initial_state_part000_def room_selected_def
        DEFAULT_ROOMS_def boardLinks_part000_def boardItems_part000_def activeRoom_def)
  have e: "clientX (mouse_at 10 10 0) = 10" "clientY (mouse_at 10 10 0) = 10"
    "button (mouse_at 10 10 0) = 0"
    "clientX (mouse_at 10 10 2) = 10" "clientY (mouse_at 10 10 2) = 10"
    by (simp_all add: mouse_at_def)
  show ?thesis
    using link_pending_resolution[where st = pending_state and source = "''1''"
            and target = "''2''" and e = "mouse_at 10 10 0" and newId = "''n1''"
            and pst = pending_state_part000 and now = 1]
          link_pending_resolution[where st = pending_state and source = "''1''"
            and target = "''2''" and e = "mouse_at 10 10 2" and newId = "''n1''"
            and pst = pending_state_part000 and now = 1]
    by (simp add: a b e)
qed
text \<open>
  C10. During a node drag (a dragged id is set, and panning is not active outside focus
  mode), a pointer move leaves the links as they are and maps the nodes one by one: a node
  whose id is not the dragged id is unchanged, and a node with the dragged id changes in
  its \<open>x\<close> and \<open>y\<close> fields only, each by the pointer delta divided by the scale. This
  holds in both files. The scale is taken to be non-zero: a division by zero gives an
  infinity in the source, which the real numbers of the model do not have.
\<close>

theorem drag_frame:
  "(draggingId st = Some d \<and> d \<noteq> [] \<and> \<not> (isPanning st \<and> \<not> truthy (focusModeId st))
      \<and> t_s (transform st) \<noteq> 0 \<longrightarrow>
      boardLinks (handleContainerMouseMove container e st) = boardLinks st
    \<and> boardItems (handleContainerMouseMove container e st)
        = map (\<lambda>item. if item_id item = d
                 then item\<lparr>item_x := item_x item
                              + (clientX e - fst (lastMousePos st)) / t_s (transform st),
                           item_y := item_y item
                              + (clientY e - snd (lastMousePos st)) / t_s (transform st)\<rparr>
                 else item) (boardItems st)
    \<and> length (boardItems (handleContainerMouseMove container e st)) = length (boardItems st)
    \<and> (\<forall>i < length (boardItems st).
          item_id (boardItems st ! i) \<noteq> d \<longrightarrow>
          boardItems (handleContainerMouseMove container e st) ! i = boardItems st ! i))
   \<and> (draggingId pst = Some d \<and> d \<noteq> [] \<and> \<not> (isPanning pst \<and> \<not> truthy (focusModeId pst))
      \<and> t_s (transform pst) \<noteq> 0 \<and> room_selected pst \<longrightarrow>
      boardLinks_part000 (handleContainerMouseMove_part000 pst now container e pst)
        = boardLinks_part000 pst
    \<and> boardItems_part000 (handleContainerMouseMove_part000 pst now container e pst)
        = map (\<lambda>item. if item_id item = d
                 then item\<lparr>item_x := item_x item
                              + (clientX e - fst (lastMousePos pst)) / t_s (transform pst),
                           item_y := item_y item
                              + (clientY e - snd (lastMousePos pst)) / t_s (transform pst)\<rparr>
                 else item) (boardItems_part000 pst))"
proof -
  let ?f = "\<lambda>s item. if item_id item = d
                 then item\<lparr>item_x := item_x item
                              + (clientX e - fst (lastMousePos s)) / t_s (transform s),
                           item_y := item_y item
                              + (clientY e - snd (lastMousePos s)) / t_s (transform s)\<rparr>
                 else item"
  have app: "boardLinks (handleContainerMouseMove container e st) = boardLinks st
      \<and> boardItems (handleContainerMouseMove container e st) = map (?f st) (boardItems st)"
    if "draggingId st = Some d" "d \<noteq> []" "\<not> (isPanning st \<and> \<not> truthy (focusModeId st))"
    using that by (auto simp: handleContainerMouseMove_def truthy_def Let_def)
  have part: "boardLinks_part000 (handleContainerMouseMove_part000 pst now container e pst)
        = boardLinks_part000 pst
      \<and> boardItems_part000 (handleContainerMouseMove_part000 pst now container e pst)
        = map (?f pst) (boardItems_part000 pst)"
    if h: "draggingId pst = Some d" "d \<noteq> []"
      "\<not> (isPanning pst \<and> \<not> truthy (focusModeId pst))" "room_selected pst"
  proof -
    let ?st0 = "if truthy (pendingLinkStart pst)
                then pst\<lparr>cursorPos := getBoardCoordinates container pst (clientX e) (clientY e)\<rparr>
                else pst"
    let ?u = "updateActiveRoom pst now (map (?f pst) (boardItems_part000 pst))
                (boardLinks_part000 pst) ?st0"
    have r: "handleContainerMouseMove_part000 pst now container e pst
               = ?u\<lparr>lastMousePos := (clientX e, clientY e)\<rparr>"
      using h by (auto simp: handleContainerMouseMove_part000_def truthy_def Let_def
          setBoardItems_part000_def)
    have sel: "room_selected ?st0" "activeRoomId pst = activeRoomId ?st0"
      using h by (simp_all add: room_selected_def)
    have u: "boardItems_part000 ?u = map (?f pst) (boardItems_part000 pst)"
            "boardLinks_part000 ?u = boardLinks_part000 pst"
      using board_after_updateActiveRoom[OF sel] by simp_all
    have c: "boardItems_part000 (?u\<lparr>lastMousePos := (clientX e, clientY e)\<rparr>)
               = boardItems_part000 ?u"
            "boardLinks_part000 (?u\<lparr>lastMousePos := (clientX e, clientY e)\<rparr>)
               = boardLinks_part000 ?u"
      using board_part000_cong[of "?u\<lparr>lastMousePos := (clientX e, clientY e)\<rparr>" ?u]
      by simp_all
    show ?thesis using r u c by simp
  qed
  show ?thesis using app part by simp
qed

theorem drag_frame_witness:
  "draggingId dragging_state = Some ''2''
   \<and> t_s (transform dragging_state) \<noteq> 0
   \<and> boardLinks (handleContainerMouseMove (Some sample_rect) (mouse_at 30 50 0) dragging_state)
       = INITIAL_BOARD_LINKS
   \<and> map (\<lambda>i. (item_id i, item_x i, item_y i))
         (boardItems (handleContainerMouseMove (Some sample_rect) (mouse_at 30 50 0)
            dragging_state))
       = [(''1'', 550, 50), (''2'', 610, 320), (''3'', 250, 300), (''4'', 950, 300),
          (''5'', 630, 600)]
   \<and> room_selected dragging_state_part000
   \<and> boardLinks_part000 (handleContainerMouseMove_part000 dragging_state_part000 1
         (Some sample_rect) (mouse_at 30 50 0) dragging_state_part000)
       = INITIAL_BOARD_LINKS
   \<and> map (\<lambda>i. (item_id i, item_x i, item_y i))
         (boardItems_part000 (handleContainerMouseMove_part000 dragging_state_part000 1
            (Some sample_rect) (mouse_at 30 50 0) dragging_state_part000))
       = [(''1'', 550, 50), (''2'', 610, 320), (''3'', 250, 300), (''4'', 950, 300),
          (''5'', 630, 600)]"
proof -
  have a: "draggingId dragging_state = Some ''2''" "isPanning dragging_state = False"
    "t_s (transform dragging_state) = 2" "lastMousePos dragging_state = (10, 10)"
    "boardLinks dragging_state = INITIAL_BOARD_LINKS"
    "boardItems dragging_state = INITIAL_BOARD_ITEMS"
    by (simp_all add: dragging_state_def initial_state_def)
  have b: "draggingId dragging_state_part000 = Some ''2''"
    "isPanning dragging_state_part000 = False"
    "t_s (transform dragging_state_part000) = 2"
    "lastMousePos dragging_state_part000 = (10, 10)"
    "room_selected dragging_state_part000"
    "boardLinks_part000 dragging_state_part000 = INITIAL_BOARD_LINKS"
    "boardItems_part000 dragging_state_part000 = INITIAL_BOARD_ITEMS"
    by (simp_all add: dragging_state_part000_def initial_state_part000_def room_selected_def
        DEFAULT_ROOMS_def boardLinks_part000_def boardItems_part000_def activeRoom_def)
  have e: "clientX (mouse_at 30 50 0) = 30" "clientY (mouse_at 30 50 0) = 50"
    by (simp_all add: mouse_at_def)
  show ?thesis
    using drag_frame[where st = dragging_state and d = "''2''" and e = "mouse_at 30 50 0"
            and container = "Some sample_rect" and pst = dragging_state_part000 and now = 1]
    by (simp add: a b e INITIAL_BOARD_ITEMS_def)
qed

section \<open>Properties of the task wizard\<close>






end
